theory Spec2Isabelle
  imports Complex_Main "HOL-Library.Sublist"
begin

section \<open>Interest Calculator: the spreadsheet gateway and its HTTP front\<close>

text \<open>
  The backend forwards three numbers to a Google spreadsheet and reads two results back.
  It consists of \<^verbatim>\<open>app/models.py\<close> (the request and response models),
  \<^verbatim>\<open>app/services/google_sheets.py\<close> (class \<^verbatim>\<open>GoogleSheetsService\<close>),
  \<^verbatim>\<open>app/config.py\<close> (class \<^verbatim>\<open>Settings\<close>) and \<^verbatim>\<open>app/main.py\<close>
  (the FastAPI routes, the start-up hook and the exception handlers).

  Python floats are modelled as \<open>real\<close>, Python strings as \<open>string\<close>. Every
  \<^verbatim>\<open>raise\<close> is a value \<open>Inl e\<close> of a sum type, every mutation of \<^verbatim>\<open>self\<close> or of
  the module global \<^verbatim>\<open>sheets_service\<close> is explicit state passing, and every call
  into gspread, google-auth or \<^verbatim>\<open>time.sleep\<close> is appended to a trace of events.
  The \<^verbatim>\<open>print\<close> calls are left out.
\<close>

subsection \<open>Python exceptions\<close>

text \<open>
  The exception classes the code raises or catches. All of them are subclasses of
  \<^verbatim>\<open>Exception\<close>, so a clause \<^verbatim>\<open>except Exception\<close> catches every one of them.
  \<open>HTTPException\<close> carries its status code, and its \<open>msg\<close> is its \<^verbatim>\<open>detail\<close>;
  for every other class \<open>msg\<close> is what \<^verbatim>\<open>str\<close> returns.
\<close>

datatype exc_class =
    Exception
  | ValueError
  | KeyError
  | FileNotFoundError
  | SpreadsheetNotFound
  | WorksheetNotFound
  | APIError
  | HTTPException nat

datatype exn = Raise (cls: exc_class) (msg: string)

subsection \<open>The world outside the repository\<close>

datatype event =
    FromServiceAccountFile string
  | Authorize
  | OpenByKey string
  | Worksheet string
  | UpdateAcell string string real
  | Sleep real
  | Acell string string
  | Worksheets

type_synonym trace = "event list"

text \<open>
  What the libraries answer. Every library call is given the trace of the calls made so
  far, so the remote spreadsheet may answer a read according to the writes and the
  pauses before it: its state is a function of the trace. \<open>None\<close> (or \<open>Inr\<close>) is a
  call that returns, \<open>Some e\<close> (or \<open>Inl e\<close>) one that raises \<open>e\<close>.
  \<open>acell\<close> yields the \<^verbatim>\<open>value\<close> of the cell read: \<open>None\<close> for Python's
  \<^verbatim>\<open>None\<close>. \<open>pyfloat\<close> is the builtin \<^verbatim>\<open>float\<close> on a string (\<open>None\<close> when it
  raises \<^verbatim>\<open>ValueError\<close>), \<open>pyround\<close> the builtin \<^verbatim>\<open>round(x, n)\<close>, and
  \<open>http_exception_str\<close> is \<^verbatim>\<open>str\<close> of an \<^verbatim>\<open>HTTPException\<close> with the given status
  and detail.
\<close>

record env =
  path_exists :: "string \<Rightarrow> bool"
  path_resolve :: "string \<Rightarrow> string"
  from_service_account_file :: "trace \<Rightarrow> string \<Rightarrow> exn option"
  authorize :: "trace \<Rightarrow> exn option"
  open_by_key :: "trace \<Rightarrow> string \<Rightarrow> exn + string"
  worksheet :: "trace \<Rightarrow> string \<Rightarrow> exn option"
  update_acell :: "trace \<Rightarrow> string \<Rightarrow> string \<Rightarrow> real \<Rightarrow> exn option"
  acell :: "trace \<Rightarrow> string \<Rightarrow> string \<Rightarrow> exn + string option"
  worksheets :: "trace \<Rightarrow> exn + string list"
  pyfloat :: "string \<Rightarrow> real option"
  pyround :: "real \<Rightarrow> int \<Rightarrow> real"
  http_exception_str :: "nat \<Rightarrow> string \<Rightarrow> string"

definition py_str :: "env \<Rightarrow> exn \<Rightarrow> string" where
  "py_str E e =
     (case cls e of HTTPException code \<Rightarrow> http_exception_str E code (msg e) | _ \<Rightarrow> msg e)"

subsection \<open>\<^verbatim>\<open>GoogleSheetsService\<close> (app/services/google\_sheets.py)\<close>

datatype gspread_client = Client

datatype gspread_spreadsheet = Spreadsheet (title: string)

record GoogleSheetsService =
  credentials_path :: string
  sheet_id :: string
  client :: "gspread_client option"
  spreadsheet :: "gspread_spreadsheet option"

text \<open>\<^verbatim>\<open>__init__\<close>: an empty sheet id and a missing credentials file are refused.\<close>

definition GoogleSheetsService_init :: "env \<Rightarrow> string \<Rightarrow> string \<Rightarrow> exn + GoogleSheetsService" where
  "GoogleSheetsService_init E cpath sid =
     (if sid = [] then Inl (Raise ValueError ''Sheet ID cannot be empty'')
      else if \<not> path_exists E cpath
        then Inl (Raise FileNotFoundError (''Credentials file not found: '' @ cpath))
      else Inr \<lparr>credentials_path = cpath, sheet_id = sid, client = None, spreadsheet = None\<rparr>)"

text \<open>
  The \<^verbatim>\<open>try\<close> block of \<^verbatim>\<open>authenticate\<close>: \<^verbatim>\<open>self.client\<close> is assigned as soon as
  \<^verbatim>\<open>gspread.authorize\<close> returns, \<^verbatim>\<open>self.spreadsheet\<close> only when \<^verbatim>\<open>open_by_key\<close> returns.
\<close>

definition authenticate_try ::
  "env \<Rightarrow> GoogleSheetsService \<Rightarrow> trace \<Rightarrow> (exn + unit) \<times> GoogleSheetsService \<times> trace" where
  "authenticate_try E g tr =
     (let tr1 = tr @ [FromServiceAccountFile (credentials_path g)] in
      case from_service_account_file E tr (credentials_path g) of
        Some e \<Rightarrow> (Inl e, g, tr1)
      | None \<Rightarrow>
          (let tr2 = tr1 @ [Authorize] in
           case authorize E tr1 of
             Some e \<Rightarrow> (Inl e, g, tr2)
           | None \<Rightarrow>
               (let g1 = g\<lparr>client := Some Client\<rparr>;
                    tr3 = tr2 @ [OpenByKey (sheet_id g1)] in
                case open_by_key E tr2 (sheet_id g1) of
                  Inl e \<Rightarrow> (Inl e, g1, tr3)
                | Inr t \<Rightarrow> (Inr (), g1\<lparr>spreadsheet := Some (Spreadsheet t)\<rparr>, tr3))))"

text \<open>The three \<^verbatim>\<open>except\<close> clauses of \<^verbatim>\<open>authenticate\<close>, in the source's order.\<close>

definition authenticate_except :: "env \<Rightarrow> GoogleSheetsService \<Rightarrow> exn \<Rightarrow> exn" where
  "authenticate_except E g e =
     (case cls e of
        FileNotFoundError \<Rightarrow> Raise Exception (''Credentials file not found: '' @ py_str E e)
      | SpreadsheetNotFound \<Rightarrow>
          Raise Exception
            (''Spreadsheet not found. Check if:'' @ [CHR 0x0A] @
             ''1. Sheet ID is correct: '' @ sheet_id g @ [CHR 0x0A] @
             ''2. Sheet is shared with service account email'')
      | _ \<Rightarrow> Raise Exception (''Authentication failed: '' @ py_str E e))"

definition authenticate ::
  "env \<Rightarrow> GoogleSheetsService \<Rightarrow> trace \<Rightarrow> (exn + unit) \<times> GoogleSheetsService \<times> trace" where
  "authenticate E g tr =
     (case authenticate_try E g tr of
        (Inl e, g', tr') \<Rightarrow> (Inl (authenticate_except E g' e), g', tr')
      | (Inr u, g', tr') \<Rightarrow> (Inr u, g', tr'))"

text \<open>
  \<^verbatim>\<open>write_inputs\<close>. The check of \<^verbatim>\<open>self.spreadsheet\<close> stands before the \<^verbatim>\<open>try\<close>; the
  \<^verbatim>\<open>sleep(0.5)\<close> is the last statement inside it.
\<close>

definition write_inputs_try ::
  "env \<Rightarrow> trace \<Rightarrow> real \<Rightarrow> real \<Rightarrow> real \<Rightarrow> string \<Rightarrow> string \<Rightarrow> string \<Rightarrow> string
     \<Rightarrow> (exn + unit) \<times> trace" where
  "write_inputs_try E tr amount rate time input_sheet_name principal_cell rate_cell time_cell =
     (let tr1 = tr @ [Worksheet input_sheet_name] in
      case worksheet E tr input_sheet_name of
        Some e \<Rightarrow> (Inl e, tr1)
      | None \<Rightarrow>
          (let tr2 = tr1 @ [UpdateAcell input_sheet_name principal_cell amount] in
           case update_acell E tr1 input_sheet_name principal_cell amount of
             Some e \<Rightarrow> (Inl e, tr2)
           | None \<Rightarrow>
               (let tr3 = tr2 @ [UpdateAcell input_sheet_name rate_cell rate] in
                case update_acell E tr2 input_sheet_name rate_cell rate of
                  Some e \<Rightarrow> (Inl e, tr3)
                | None \<Rightarrow>
                    (let tr4 = tr3 @ [UpdateAcell input_sheet_name time_cell time] in
                     case update_acell E tr3 input_sheet_name time_cell time of
                       Some e \<Rightarrow> (Inl e, tr4)
                     | None \<Rightarrow> (Inr (), tr4 @ [Sleep (1 / 2)])))))"

definition write_inputs_except :: "env \<Rightarrow> string \<Rightarrow> exn \<Rightarrow> exn" where
  "write_inputs_except E input_sheet_name e =
     (case cls e of
        WorksheetNotFound \<Rightarrow>
          Raise Exception
            (''Worksheet '' @ [CHR 0x27] @ input_sheet_name @ [CHR 0x27] @
             '' not found. Please ensure the sheet exists.'')
      | _ \<Rightarrow> Raise Exception (''Failed to write inputs: '' @ py_str E e))"

definition write_inputs ::
  "env \<Rightarrow> GoogleSheetsService \<Rightarrow> trace \<Rightarrow> real \<Rightarrow> real \<Rightarrow> real
     \<Rightarrow> string \<Rightarrow> string \<Rightarrow> string \<Rightarrow> string \<Rightarrow> (exn + unit) \<times> trace" where
  "write_inputs E g tr amount rate time input_sheet_name principal_cell rate_cell time_cell =
     (if spreadsheet g = None
        then (Inl (Raise Exception ''Not authenticated. Call authenticate() first.''), tr)
      else
        (case write_inputs_try E tr amount rate time
                input_sheet_name principal_cell rate_cell time_cell of
           (Inl e, tr') \<Rightarrow> (Inl (write_inputs_except E input_sheet_name e), tr')
         | (Inr u, tr') \<Rightarrow> (Inr u, tr')))"

text \<open>
  \<^verbatim>\<open>float(raw) if raw else 0.0\<close> inside its own \<^verbatim>\<open>try\<close>: \<^verbatim>\<open>None\<close> and the empty
  string are falsy; a \<^verbatim>\<open>ValueError\<close> of \<^verbatim>\<open>float\<close> is replaced by an \<^verbatim>\<open>Exception\<close>
  that names the cell and its content.
\<close>

definition cell_to_float :: "env \<Rightarrow> string \<Rightarrow> string \<Rightarrow> string option \<Rightarrow> exn + real" where
  "cell_to_float E what cell raw =
     (case raw of
        None \<Rightarrow> Inr 0
      | Some s \<Rightarrow>
          (if s = [] then Inr 0
           else
             (case pyfloat E s of
                Some v \<Rightarrow> Inr v
              | None \<Rightarrow>
                  Inl (Raise Exception (''Invalid '' @ what @ '' value in '' @ cell @ '': '' @ s)))))"

text \<open>
  The outer \<^verbatim>\<open>try\<close> of \<^verbatim>\<open>read_outputs\<close>: both cells are read before either is
  converted. The result is the dictionary with the keys \<^verbatim>\<open>simpleInterest\<close> and
  \<^verbatim>\<open>compoundInterest\<close>.
\<close>

definition read_outputs_try ::
  "env \<Rightarrow> trace \<Rightarrow> string \<Rightarrow> string \<Rightarrow> string \<Rightarrow> (exn + (string \<rightharpoonup> real)) \<times> trace" where
  "read_outputs_try E tr output_sheet_name si_cell ci_cell =
     (let tr1 = tr @ [Worksheet output_sheet_name] in
      case worksheet E tr output_sheet_name of
        Some e \<Rightarrow> (Inl e, tr1)
      | None \<Rightarrow>
          (let tr2 = tr1 @ [Acell output_sheet_name si_cell] in
           case acell E tr1 output_sheet_name si_cell of
             Inl e \<Rightarrow> (Inl e, tr2)
           | Inr simple_interest_raw \<Rightarrow>
               (let tr3 = tr2 @ [Acell output_sheet_name ci_cell] in
                case acell E tr2 output_sheet_name ci_cell of
                  Inl e \<Rightarrow> (Inl e, tr3)
                | Inr compound_interest_raw \<Rightarrow>
                    (case cell_to_float E ''simple interest'' si_cell simple_interest_raw of
                       Inl e \<Rightarrow> (Inl e, tr3)
                     | Inr simple_interest \<Rightarrow>
                         (case cell_to_float E ''compound interest'' ci_cell
                                 compound_interest_raw of
                            Inl e \<Rightarrow> (Inl e, tr3)
                          | Inr compound_interest \<Rightarrow>
                              (Inr [''simpleInterest'' \<mapsto> simple_interest,
                                    ''compoundInterest'' \<mapsto> compound_interest], tr3))))))"

text \<open>
  The \<^verbatim>\<open>except\<close> clauses of the outer \<^verbatim>\<open>try\<close>. The \<^verbatim>\<open>Exception\<close> raised for an
  unparsable cell is raised inside that \<^verbatim>\<open>try\<close>, so the second clause catches it too.
\<close>

definition read_outputs_except :: "env \<Rightarrow> string \<Rightarrow> exn \<Rightarrow> exn" where
  "read_outputs_except E output_sheet_name e =
     (case cls e of
        WorksheetNotFound \<Rightarrow>
          Raise Exception
            (''Worksheet '' @ [CHR 0x27] @ output_sheet_name @ [CHR 0x27] @
             '' not found. Please ensure the sheet exists.'')
      | _ \<Rightarrow> Raise Exception (''Failed to read outputs: '' @ py_str E e))"

definition read_outputs ::
  "env \<Rightarrow> GoogleSheetsService \<Rightarrow> trace \<Rightarrow> string \<Rightarrow> string \<Rightarrow> string
     \<Rightarrow> (exn + (string \<rightharpoonup> real)) \<times> trace" where
  "read_outputs E g tr output_sheet_name si_cell ci_cell =
     (if spreadsheet g = None
        then (Inl (Raise Exception ''Not authenticated. Call authenticate() first.''), tr)
      else
        (case read_outputs_try E tr output_sheet_name si_cell ci_cell of
           (Inl e, tr') \<Rightarrow> (Inl (read_outputs_except E output_sheet_name e), tr')
         | (Inr res, tr') \<Rightarrow> (Inr res, tr')))"

text \<open>
  \<^verbatim>\<open>calculate_interest\<close> of the service: it authenticates when \<^verbatim>\<open>self.client\<close> is
  unset, then calls \<^verbatim>\<open>write_inputs\<close> and \<^verbatim>\<open>read_outputs\<close> with their default sheet
  names and cells.
\<close>

definition calculate_interest ::
  "env \<Rightarrow> GoogleSheetsService \<Rightarrow> trace \<Rightarrow> real \<Rightarrow> real \<Rightarrow> real
     \<Rightarrow> (exn + (string \<rightharpoonup> real)) \<times> GoogleSheetsService \<times> trace" where
  "calculate_interest E g tr amount rate time =
     (case (if client g = None then authenticate E g tr else (Inr (), g, tr)) of
        (Inl e, g1, tr1) \<Rightarrow> (Inl e, g1, tr1)
      | (Inr u, g1, tr1) \<Rightarrow>
          (case write_inputs E g1 tr1 amount rate time ''Input'' ''B2'' ''B3'' ''B4'' of
             (Inl e, tr2) \<Rightarrow> (Inl e, g1, tr2)
           | (Inr u', tr2) \<Rightarrow>
               (case read_outputs E g1 tr2 ''Output'' ''B2'' ''B3'' of
                  (res, tr3) \<Rightarrow> (res, g1, tr3))))"

text \<open>Python's \<^verbatim>\<open>sep.join(xs)\<close>.\<close>

fun join :: "string \<Rightarrow> string list \<Rightarrow> string" where
  "join sep [] = []"
| "join sep [x] = x"
| "join sep (x # y # ys) = x @ sep @ join sep (y # ys)"

definition required_sheets :: "string list" where
  "required_sheets = [''Input'', ''Calc'', ''Output'']"

text \<open>
  \<^verbatim>\<open>verify_sheet_structure\<close> has no \<^verbatim>\<open>try\<close>: an exception of \<^verbatim>\<open>worksheets()\<close>
  propagates. Without a spreadsheet it returns a pair, it does not raise.
\<close>

definition verify_sheet_structure ::
  "env \<Rightarrow> GoogleSheetsService \<Rightarrow> trace \<Rightarrow> (exn + bool \<times> string) \<times> trace" where
  "verify_sheet_structure E g tr =
     (if spreadsheet g = None then (Inr (False, ''Not authenticated''), tr)
      else
        (let tr1 = tr @ [Worksheets] in
         case worksheets E tr of
           Inl e \<Rightarrow> (Inl e, tr1)
         | Inr existing_sheets \<Rightarrow>
             (let missing_sheets = filter (\<lambda>s. s \<notin> set existing_sheets) required_sheets in
              if missing_sheets \<noteq> []
                then (Inr (False, ''Missing required sheets: '' @ join '', '' missing_sheets), tr1)
              else (Inr (True, ''Sheet structure verified successfully''), tr1))))"

subsection \<open>The request and response models (app/models.py)\<close>

text \<open>
  \<^verbatim>\<open>CalculateRequest\<close> declares its bounds twice: as constraints of the fields
  (\<^verbatim>\<open>gt=0\<close>, and \<^verbatim>\<open>le=100\<close> for the rate) and as field validators that run after
  them. An error of the validation names its field (\<open>loc\<close>) and what failed.
\<close>

datatype error_type = greater_than real | less_than_equal real | value_error string

type_synonym error_details = "string \<times> error_type"

record CalculateRequest =
  principal :: real
  rate :: real
  time :: real

definition validate_positive :: "string \<Rightarrow> real \<Rightarrow> string + real" where
  "validate_positive field_name v =
     (if v \<le> 0 then Inl (field_name @ '' must be greater than 0'') else Inr v)"

definition validate_rate :: "real \<Rightarrow> string + real" where
  "validate_rate v = (if v > 100 then Inl ''Rate cannot exceed 100%'' else Inr v)"

definition principal_field :: "real \<Rightarrow> error_details list + real" where
  "principal_field v =
     (if \<not> v > 0 then Inl [(''principal'', greater_than 0)]
      else
        (case validate_positive ''principal'' v of
           Inl m \<Rightarrow> Inl [(''principal'', value_error m)]
         | Inr v1 \<Rightarrow> Inr v1))"

definition rate_field :: "real \<Rightarrow> error_details list + real" where
  "rate_field v =
     (if \<not> v > 0 then Inl [(''rate'', greater_than 0)]
      else if \<not> v \<le> 100 then Inl [(''rate'', less_than_equal 100)]
      else
        (case validate_positive ''rate'' v of
           Inl m \<Rightarrow> Inl [(''rate'', value_error m)]
         | Inr v1 \<Rightarrow>
             (case validate_rate v1 of
                Inl m \<Rightarrow> Inl [(''rate'', value_error m)]
              | Inr v2 \<Rightarrow> Inr v2)))"

definition time_field :: "real \<Rightarrow> error_details list + real" where
  "time_field v =
     (if \<not> v > 0 then Inl [(''time'', greater_than 0)]
      else
        (case validate_positive ''time'' v of
           Inl m \<Rightarrow> Inl [(''time'', value_error m)]
         | Inr v1 \<Rightarrow> Inr v1))"

definition errors_of :: "error_details list + real \<Rightarrow> error_details list" where
  "errors_of r = (case r of Inl es \<Rightarrow> es | Inr v \<Rightarrow> [])"

text \<open>
  Building a \<^verbatim>\<open>CalculateRequest\<close> from three numbers: every field is checked, and the
  errors of all fields are reported together.
\<close>

definition CalculateRequest_validate ::
  "real \<Rightarrow> real \<Rightarrow> real \<Rightarrow> error_details list + CalculateRequest" where
  "CalculateRequest_validate p r t =
     (case (principal_field p, rate_field r, time_field t) of
        (Inr p1, Inr r1, Inr t1) \<Rightarrow> Inr \<lparr>principal = p1, rate = r1, time = t1\<rparr>
      | (a, b, c) \<Rightarrow> Inl (errors_of a @ errors_of b @ errors_of c))"

record CalculateResponse =
  simpleInterest :: real
  compoundInterest :: real
  principal :: "real option"
  rate :: "real option"
  time :: "real option"

subsection \<open>\<^verbatim>\<open>Settings\<close> (app/config.py)\<close>

record Settings =
  GOOGLE_SHEET_ID :: string
  GOOGLE_CREDENTIALS_PATH :: string

definition Settings_validate :: "env \<Rightarrow> Settings \<Rightarrow> exn + unit" where
  "Settings_validate E cfg =
     (if GOOGLE_SHEET_ID cfg = []
        then Inl (Raise ValueError ''GOOGLE_SHEET_ID environment variable is not set'')
      else if \<not> path_exists E (GOOGLE_CREDENTIALS_PATH cfg)
        then Inl (Raise ValueError
                    (''Google credentials file not found at: '' @ GOOGLE_CREDENTIALS_PATH cfg))
      else Inr ())"

definition get_credentials_path :: "env \<Rightarrow> Settings \<Rightarrow> string" where
  "get_credentials_path E cfg = path_resolve E (GOOGLE_CREDENTIALS_PATH cfg)"

subsection \<open>The application (app/main.py)\<close>

text \<open>The module global \<^verbatim>\<open>sheets_service\<close>, \<^verbatim>\<open>None\<close> when the module is loaded.\<close>

record app_state =
  sheets_service :: "GoogleSheetsService option"

text \<open>
  \<^verbatim>\<open>get_sheets_service\<close> assigns the global as soon as the constructor returns, before
  \<^verbatim>\<open>authenticate\<close> is called on the new object; the object the global names is the one
  \<^verbatim>\<open>authenticate\<close> mutates.
\<close>

definition get_sheets_service ::
  "env \<Rightarrow> Settings \<Rightarrow> app_state \<Rightarrow> trace
     \<Rightarrow> (exn + GoogleSheetsService) \<times> app_state \<times> trace" where
  "get_sheets_service E cfg st tr =
     (case sheets_service st of
        Some g \<Rightarrow> (Inr g, st, tr)
      | None \<Rightarrow>
          (case GoogleSheetsService_init E (get_credentials_path E cfg) (GOOGLE_SHEET_ID cfg) of
             Inl e \<Rightarrow>
               (Inl (Raise (HTTPException 500)
                       (''Failed to initialize Google Sheets service: '' @ py_str E e)), st, tr)
           | Inr g0 \<Rightarrow>
               (case authenticate E g0 tr of
                  (Inl e, g1, tr1) \<Rightarrow>
                    (Inl (Raise (HTTPException 500)
                            (''Failed to initialize Google Sheets service: '' @ py_str E e)),
                     st\<lparr>sheets_service := Some g1\<rparr>, tr1)
                | (Inr u, g1, tr1) \<Rightarrow> (Inr g1, st\<lparr>sheets_service := Some g1\<rparr>, tr1))))"

text \<open>
  The start-up part of \<^verbatim>\<open>lifespan\<close>, which runs before the server accepts a request:
  it validates the settings and calls \<^verbatim>\<open>get_sheets_service\<close>; an exception of either
  is raised again and the server does not start.
\<close>

definition lifespan_startup ::
  "env \<Rightarrow> Settings \<Rightarrow> app_state \<Rightarrow> trace \<Rightarrow> (exn + unit) \<times> app_state \<times> trace" where
  "lifespan_startup E cfg st tr =
     (case Settings_validate E cfg of
        Inl e \<Rightarrow> (Inl e, st, tr)
      | Inr u \<Rightarrow>
          (case get_sheets_service E cfg st tr of
             (Inl e, st1, tr1) \<Rightarrow> (Inl e, st1, tr1)
           | (Inr g, st1, tr1) \<Rightarrow> (Inr (), st1, tr1)))"

text \<open>
  The \<^verbatim>\<open>try\<close> block of the route function \<^verbatim>\<open>calculate_interest\<close> of main.py (here
  \<open>main_calculate_interest\<close>, the service's method has the plain name). The service
  object is the one the global names, so what the method changes in it is stored back.
  A key missing from the result dictionary raises \<^verbatim>\<open>KeyError\<close>.
\<close>

definition main_calculate_interest_try ::
  "env \<Rightarrow> Settings \<Rightarrow> app_state \<Rightarrow> trace \<Rightarrow> CalculateRequest
     \<Rightarrow> (exn + CalculateResponse) \<times> app_state \<times> trace" where
  "main_calculate_interest_try E cfg st tr request =
     (case get_sheets_service E cfg st tr of
        (Inl e, st1, tr1) \<Rightarrow> (Inl e, st1, tr1)
      | (Inr service, st1, tr1) \<Rightarrow>
          (case calculate_interest E service tr1
                  (CalculateRequest.principal request) (CalculateRequest.rate request)
                  (CalculateRequest.time request) of
             (Inl e, service1, tr2) \<Rightarrow> (Inl e, st1\<lparr>sheets_service := Some service1\<rparr>, tr2)
           | (Inr results, service1, tr2) \<Rightarrow>
               (let st2 = st1\<lparr>sheets_service := Some service1\<rparr> in
                case results ''simpleInterest'' of
                  None \<Rightarrow> (Inl (Raise KeyError (CHR 0x27 # ''simpleInterest'' @ [CHR 0x27])), st2, tr2)
                | Some si \<Rightarrow>
                    (case results ''compoundInterest'' of
                       None \<Rightarrow>
                         (Inl (Raise KeyError (CHR 0x27 # ''compoundInterest'' @ [CHR 0x27])),
                          st2, tr2)
                     | Some ci \<Rightarrow>
                         (Inr \<lparr>simpleInterest = pyround E si 2,
                               compoundInterest = pyround E ci 2,
                               principal = Some (CalculateRequest.principal request),
                               rate = Some (CalculateRequest.rate request),
                               time = Some (CalculateRequest.time request)\<rparr>, st2, tr2)))))"

text \<open>The two \<^verbatim>\<open>except\<close> clauses of the route function.\<close>

definition main_calculate_interest_except :: "env \<Rightarrow> exn \<Rightarrow> exn" where
  "main_calculate_interest_except E e =
     (case cls e of
        ValueError \<Rightarrow> Raise (HTTPException 400) (py_str E e)
      | _ \<Rightarrow> Raise (HTTPException 500) (''Calculation failed: '' @ py_str E e))"

definition main_calculate_interest ::
  "env \<Rightarrow> Settings \<Rightarrow> app_state \<Rightarrow> trace \<Rightarrow> CalculateRequest
     \<Rightarrow> (exn + CalculateResponse) \<times> app_state \<times> trace" where
  "main_calculate_interest E cfg st tr request =
     (case main_calculate_interest_try E cfg st tr request of
        (Inl e, st1, tr1) \<Rightarrow> (Inl (main_calculate_interest_except E e), st1, tr1)
      | (Inr response, st1, tr1) \<Rightarrow> (Inr response, st1, tr1))"

text \<open>JSON bodies and the two registered exception handlers.\<close>

datatype json = JString string | JNumber real | JNull

record JSONResponse =
  status_code :: nat
  content :: "(string \<times> json) list"

definition http_exception_handler :: "nat \<Rightarrow> string \<Rightarrow> JSONResponse" where
  "http_exception_handler code detail =
     \<lparr>status_code = code, content = [(''error'', JString detail)]\<rparr>"

definition general_exception_handler :: "env \<Rightarrow> exn \<Rightarrow> JSONResponse" where
  "general_exception_handler E exc =
     \<lparr>status_code = 500,
      content = [(''error'', JString ''Internal server error''),
                 (''detail'', JString (py_str E exc))]\<rparr>"

definition json_of_optional :: "real option \<Rightarrow> json" where
  "json_of_optional v = (case v of None \<Rightarrow> JNull | Some x \<Rightarrow> JNumber x)"

definition CalculateResponse_json :: "CalculateResponse \<Rightarrow> (string \<times> json) list" where
  "CalculateResponse_json r =
     [(''simpleInterest'', JNumber (simpleInterest r)),
      (''compoundInterest'', JNumber (compoundInterest r)),
      (''principal'', json_of_optional (principal r)),
      (''rate'', json_of_optional (rate r)),
      (''time'', json_of_optional (time r))]"

text \<open>
  \<^verbatim>\<open>POST /calculate\<close> for a request body that has passed the validation of
  \<^verbatim>\<open>CalculateRequest\<close>: the route function runs, an \<^verbatim>\<open>HTTPException\<close> it raises goes
  to \<^verbatim>\<open>http_exception_handler\<close>, any other exception to
  \<^verbatim>\<open>general_exception_handler\<close>, and a returned response is sent with status 200.
  What the framework answers to a body that fails the validation is not code of this
  repository and is not modelled.
\<close>

definition post_calculate ::
  "env \<Rightarrow> Settings \<Rightarrow> app_state \<Rightarrow> trace \<Rightarrow> CalculateRequest
     \<Rightarrow> JSONResponse \<times> app_state \<times> trace" where
  "post_calculate E cfg st tr request =
     (case main_calculate_interest E cfg st tr request of
        (Inl e, st1, tr1) \<Rightarrow>
          ((case cls e of
              HTTPException code \<Rightarrow> http_exception_handler code (msg e)
            | _ \<Rightarrow> general_exception_handler E e), st1, tr1)
      | (Inr response, st1, tr1) \<Rightarrow>
          (\<lparr>status_code = 200, content = CalculateResponse_json response\<rparr>, st1, tr1))"

subsection \<open>A sample world\<close>

text \<open>
  A world in which everything works: the credentials file exists (under its relative
  and its resolved name) and loads, the
  spreadsheet \<open>sheet-1\<close> opens, it has the three worksheets, every write returns, and
  the cells B2 and B3 of \<open>Output\<close> show \<open>1650\<close> and \<open>1742.41\<close>. \<open>pyfloat\<close> knows
  these two strings, \<open>pyround\<close> rounds half up at the given number of decimals.
\<close>

definition sample_env :: env where
  "sample_env =
     \<lparr>path_exists = (\<lambda>p. p = ''credentials.json'' \<or> p = ''/srv/app/credentials.json''),
      path_resolve = (\<lambda>p. ''/srv/app/'' @ p),
      from_service_account_file = (\<lambda>tr p. None),
      authorize = (\<lambda>tr. None),
      open_by_key =
        (\<lambda>tr k. if k = ''sheet-1'' then Inr ''Interest'' else Inl (Raise SpreadsheetNotFound k)),
      worksheet =
        (\<lambda>tr n. if n = ''Input'' \<or> n = ''Calc'' \<or> n = ''Output'' then None
                else Some (Raise WorksheetNotFound n)),
      update_acell = (\<lambda>tr s c v. None),
      acell =
        (\<lambda>tr s c. if c = ''B2'' then Inr (Some ''1650'')
                  else if c = ''B3'' then Inr (Some ''1742.41'') else Inr None),
      worksheets = (\<lambda>tr. Inr [''Input'', ''Calc'', ''Output'']),
      pyfloat =
        (\<lambda>s. if s = ''1650'' then Some 1650
             else if s = ''1742.41'' then Some (174241 / 100) else None),
      pyround = (\<lambda>x n. real_of_int \<lfloor>x * 10 ^ nat n + 1 / 2\<rfloor> / 10 ^ nat n),
      http_exception_str = (\<lambda>code detail. detail)\<rparr>"

definition sample_settings :: Settings where
  "sample_settings = \<lparr>GOOGLE_SHEET_ID = ''sheet-1'', GOOGLE_CREDENTIALS_PATH = ''credentials.json''\<rparr>"

text \<open>A service object as the constructor leaves it, and one after a successful \<^verbatim>\<open>authenticate\<close>.\<close>

definition fresh_service :: GoogleSheetsService where
  "fresh_service =
     \<lparr>credentials_path = ''/srv/app/credentials.json'', sheet_id = ''sheet-1'',
      client = None, spreadsheet = None\<rparr>"

definition connected_service :: GoogleSheetsService where
  "connected_service =
     \<lparr>credentials_path = ''/srv/app/credentials.json'', sheet_id = ''sheet-1'',
      client = Some Client, spreadsheet = Some (Spreadsheet ''Interest'')\<rparr>"

text \<open>Variations of the sample world: a worksheet is missing, a cell is empty or holds text,
  the spreadsheet does not open.\<close>

definition env_without_sheet :: "string \<Rightarrow> env" where
  "env_without_sheet name =
     sample_env
       \<lparr>worksheet := (\<lambda>tr n. if n = name then Some (Raise WorksheetNotFound n) else None),
        worksheets := (\<lambda>tr. Inr (filter (\<lambda>s. s \<noteq> name) [''Input'', ''Calc'', ''Output'']))\<rparr>"

definition env_with_outputs :: "string option \<Rightarrow> string option \<Rightarrow> env" where
  "env_with_outputs b2 b3 =
     sample_env\<lparr>acell := (\<lambda>tr s c. if c = ''B2'' then Inr b2 else Inr b3)\<rparr>"

definition env_unshared :: env where
  "env_unshared = sample_env\<lparr>open_by_key := (\<lambda>tr k. Inl (Raise SpreadsheetNotFound k))\<rparr>"

text \<open>A service whose \<^verbatim>\<open>client\<close> is set and whose \<^verbatim>\<open>spreadsheet\<close> is not.\<close>

definition half_connected_service :: GoogleSheetsService where
  "half_connected_service = fresh_service\<lparr>client := Some Client\<rparr>"

section \<open>Properties\<close>

subsection \<open>The request validator\<close>

lemmas validate_defs =
  CalculateRequest_validate_def principal_field_def rate_field_def time_field_def
  validate_positive_def validate_rate_def errors_of_def

lemma validate_accepts:
  assumes "0 < p" and "0 < r" and "r \<le> 100" and "0 < t"
  shows "CalculateRequest_validate p r t =
           Inr \<lparr>CalculateRequest.principal = p, CalculateRequest.rate = r,
                CalculateRequest.time = t\<rparr>"
  using assms by (simp add: validate_defs)

lemma validate_rejects:
  assumes "p \<le> 0 \<or> t \<le> 0 \<or> r \<le> 0 \<or> 100 < r"
  shows "\<exists>es. CalculateRequest_validate p r t = Inl es \<and> es \<noteq> [] \<and>
           (\<forall>f. f \<in> fst ` set es \<longleftrightarrow>
              (f = ''principal'' \<and> p \<le> 0) \<or> (f = ''rate'' \<and> (r \<le> 0 \<or> 100 < r)) \<or>
              (f = ''time'' \<and> t \<le> 0))"
  using assms by (auto simp add: validate_defs)

text \<open>
  Claim C2. For all principal \<open>> 0\<close>, rate in \<open>(0, 100]\<close> and time \<open>> 0\<close> the validation
  of \<^verbatim>\<open>CalculateRequest\<close> accepts and returns the three values unchanged (it is a
  function of its three arguments only, so it has no effect on anything else). For
  principal \<open>\<le> 0\<close> or time \<open>\<le> 0\<close> or rate \<open>\<le> 0\<close> or rate \<open>> 100\<close> it rejects with a
  non-empty list of errors, and the fields these errors name are exactly the offending
  ones.
\<close>

theorem request_validator_contract:
  "(0 < p \<and> 0 < r \<and> r \<le> 100 \<and> 0 < t \<longrightarrow>
      CalculateRequest_validate p r t =
        Inr \<lparr>CalculateRequest.principal = p, CalculateRequest.rate = r,
             CalculateRequest.time = t\<rparr>) \<and>
   (p \<le> 0 \<or> t \<le> 0 \<or> r \<le> 0 \<or> 100 < r \<longrightarrow>
      (\<exists>es. CalculateRequest_validate p r t = Inl es \<and> es \<noteq> [] \<and>
         (\<forall>f. f \<in> fst ` set es \<longleftrightarrow>
            (f = ''principal'' \<and> p \<le> 0) \<or> (f = ''rate'' \<and> (r \<le> 0 \<or> 100 < r)) \<or>
            (f = ''time'' \<and> t \<le> 0))))"
  using validate_accepts [of p r t] validate_rejects [of p t r] by blast

theorem request_validator_contract_witness:
  "CalculateRequest_validate 10000 (11 / 2) 3 =
     Inr \<lparr>CalculateRequest.principal = 10000, CalculateRequest.rate = 11 / 2,
          CalculateRequest.time = 3\<rparr> \<and>
   (\<exists>es. CalculateRequest_validate 10000 101 0 = Inl es \<and> es \<noteq> [] \<and>
      ''rate'' \<in> fst ` set es \<and> ''time'' \<in> fst ` set es \<and> ''principal'' \<notin> fst ` set es)"
proof -
  have ok: "(0::real) < 10000 \<and> (0::real) < 11 / 2 \<and> (11 / 2 :: real) \<le> 100 \<and> (0::real) < 3"
    by simp
  have bad: "(10000::real) \<le> 0 \<or> (0::real) \<le> 0 \<or> (101::real) \<le> 0 \<or> (100::real) < 101"
    by simp
  from request_validator_contract [of 10000 "11 / 2" 3] ok
  have first: "CalculateRequest_validate 10000 (11 / 2) 3 =
     Inr \<lparr>CalculateRequest.principal = 10000, CalculateRequest.rate = 11 / 2,
          CalculateRequest.time = 3\<rparr>"
    by blast
  from request_validator_contract [of 10000 101 0] bad
  obtain es where es: "CalculateRequest_validate 10000 101 0 = Inl es" "es \<noteq> []"
    and locs: "\<forall>f. f \<in> fst ` set es \<longleftrightarrow>
            (f = ''principal'' \<and> (10000::real) \<le> 0) \<or>
            (f = ''rate'' \<and> ((101::real) \<le> 0 \<or> (100::real) < 101)) \<or>
            (f = ''time'' \<and> (0::real) \<le> 0)"
    by blast
  from locs have "''rate'' \<in> fst ` set es" "''time'' \<in> fst ` set es"
    "''principal'' \<notin> fst ` set es"
    by simp_all
  with first es show ?thesis by blast
qed

subsection \<open>Operations on a service without a spreadsheet\<close>

text \<open>
  Claim C10. A call of \<^verbatim>\<open>write_inputs\<close> on a service whose \<^verbatim>\<open>spreadsheet\<close> is unset
  raises the not-authenticated exception and leaves the trace as it was: no library
  call is issued, so nothing reaches the remote spreadsheet and its Input cells stay as
  they are.
\<close>

theorem write_inputs_disconnected_is_atomic:
  assumes "spreadsheet g = None"
  shows "write_inputs E g tr p r t input_sheet_name principal_cell rate_cell time_cell =
           (Inl (Raise Exception ''Not authenticated. Call authenticate() first.''), tr)"
  using assms by (simp add: write_inputs_def)

theorem write_inputs_disconnected_is_atomic_witness:
  "spreadsheet fresh_service = None \<and>
   write_inputs sample_env fresh_service [] 10000 (11 / 2) 3 ''Input'' ''B2'' ''B3'' ''B4'' =
     (Inl (Raise Exception ''Not authenticated. Call authenticate() first.''), [])"
proof -
  have h: "spreadsheet fresh_service = None" by (simp add: fresh_service_def)
  from write_inputs_disconnected_is_atomic [OF h] h show ?thesis by blast
qed

subsection \<open>Shared facts about the service\<close>

lemma py_str_Exception: "py_str E (Raise Exception m) = m"
  by (simp add: py_str_def)

lemma authenticate_returns:
  assumes "authenticate E g tr = (Inr u, g', tr')"
  shows "tr' = tr @ [FromServiceAccountFile (credentials_path g), Authorize,
                     OpenByKey (sheet_id g)] \<and>
         client g' = Some Client \<and> spreadsheet g' \<noteq> None \<and>
         credentials_path g' = credentials_path g \<and> sheet_id g' = sheet_id g"
  using assms
  by (auto simp add: authenticate_def authenticate_try_def Let_def
        split: option.splits sum.splits)

lemma write_inputs_returns:
  assumes "write_inputs E g tr p r t sn pc rc tc = (Inr u, tr')"
  shows "tr' = tr @ [Worksheet sn, UpdateAcell sn pc p, UpdateAcell sn rc r,
                     UpdateAcell sn tc t, Sleep (1 / 2)]"
  using assms
  by (auto simp add: write_inputs_def write_inputs_try_def Let_def
        split: option.splits if_splits)

lemma read_outputs_returns:
  assumes "read_outputs E g tr sn sc cc = (Inr res, tr')"
  shows "tr' = tr @ [Worksheet sn, Acell sn sc, Acell sn cc] \<and>
         (\<exists>a b x y. acell E (tr @ [Worksheet sn]) sn sc = Inr a \<and>
            acell E (tr @ [Worksheet sn, Acell sn sc]) sn cc = Inr b \<and>
            cell_to_float E ''simple interest'' sc a = Inr x \<and>
            cell_to_float E ''compound interest'' cc b = Inr y \<and>
            res = [''simpleInterest'' \<mapsto> x, ''compoundInterest'' \<mapsto> y])"
  using assms
  by (auto simp add: read_outputs_def read_outputs_try_def Let_def
        split: option.splits sum.splits if_splits)

lemma authenticate_raises:
  assumes "authenticate E g tr = (Inl e, g', tr')"
  shows "cls e = Exception"
  using assms
  by (auto simp add: authenticate_def authenticate_except_def
        split: prod.splits sum.splits exc_class.splits)

lemma write_inputs_raises:
  assumes "write_inputs E g tr p r t sn pc rc tc = (Inl e, tr')"
  shows "cls e = Exception"
  using assms
  by (auto simp add: write_inputs_def write_inputs_except_def
        split: prod.splits sum.splits exc_class.splits if_splits)

lemma read_outputs_raises:
  assumes "read_outputs E g tr sn sc cc = (Inl e, tr')"
  shows "cls e = Exception"
  using assms
  by (auto simp add: read_outputs_def read_outputs_except_def
        split: prod.splits sum.splits exc_class.splits if_splits)

lemma calculate_interest_raises:
  assumes "calculate_interest E g tr p r t = (Inl e, g', tr')"
  shows "cls e = Exception"
proof -
  from assms consider
      (a) g1 tr1 where "authenticate E g tr = (Inl e, g1, tr1)"
    | (b) g1 tr1 tr2 where
        "write_inputs E g1 tr1 p r t ''Input'' ''B2'' ''B3'' ''B4'' = (Inl e, tr2)"
    | (c) g1 tr2 tr3 where "read_outputs E g1 tr2 ''Output'' ''B2'' ''B3'' = (Inl e, tr3)"
    by (auto simp add: calculate_interest_def split: prod.splits sum.splits if_splits)
  then show ?thesis
    by cases (auto dest: authenticate_raises write_inputs_raises read_outputs_raises)
qed

subsection \<open>The structure check\<close>

lemma mentions_Input:
  "\<not> sublist ''Input'' ''Missing required sheets: Calc''"
  "\<not> sublist ''Input'' ''Missing required sheets: Output''"
  "\<not> sublist ''Input'' ''Missing required sheets: Calc, Output''"
  "sublist ''Input'' ''Missing required sheets: Input''"
  "sublist ''Input'' ''Missing required sheets: Input, Calc''"
  "sublist ''Input'' ''Missing required sheets: Input, Output''"
  "sublist ''Input'' ''Missing required sheets: Input, Calc, Output''"
  by code_simp+

lemma mentions_Calc:
  "\<not> sublist ''Calc'' ''Missing required sheets: Input''"
  "\<not> sublist ''Calc'' ''Missing required sheets: Output''"
  "\<not> sublist ''Calc'' ''Missing required sheets: Input, Output''"
  "sublist ''Calc'' ''Missing required sheets: Calc''"
  "sublist ''Calc'' ''Missing required sheets: Input, Calc''"
  "sublist ''Calc'' ''Missing required sheets: Calc, Output''"
  "sublist ''Calc'' ''Missing required sheets: Input, Calc, Output''"
  by code_simp+

lemma mentions_Output:
  "\<not> sublist ''Output'' ''Missing required sheets: Input''"
  "\<not> sublist ''Output'' ''Missing required sheets: Calc''"
  "\<not> sublist ''Output'' ''Missing required sheets: Input, Calc''"
  "sublist ''Output'' ''Missing required sheets: Output''"
  "sublist ''Output'' ''Missing required sheets: Input, Output''"
  "sublist ''Output'' ''Missing required sheets: Calc, Output''"
  "sublist ''Output'' ''Missing required sheets: Input, Calc, Output''"
  by code_simp+

text \<open>
  Claim C3. On a service that holds a spreadsheet, and when \<^verbatim>\<open>worksheets()\<close> returns
  the list \<open>existing\<close> of titles, \<^verbatim>\<open>verify_sheet_structure\<close> returns success if and only
  if \<open>Input\<close>, \<open>Calc\<close> and \<open>Output\<close> are all among the titles. On failure its message is
  \<open>Missing required sheets: \<close> followed by the missing required names, joined by a comma
  and a blank, in the order Input, Calc, Output; each of the three required names
  occurs in the message if and only if it is missing.
\<close>

theorem verify_sheet_structure_contract:
  assumes conn: "spreadsheet g \<noteq> None" and ws: "worksheets E tr = Inr existing"
  shows "\<exists>ok message.
      verify_sheet_structure E g tr = (Inr (ok, message), tr @ [Worksheets]) \<and>
      (ok \<longleftrightarrow> ''Input'' \<in> set existing \<and> ''Calc'' \<in> set existing \<and> ''Output'' \<in> set existing) \<and>
      (\<not> ok \<longrightarrow>
         message = ''Missing required sheets: '' @
                     join '', '' (filter (\<lambda>s. s \<notin> set existing) [''Input'', ''Calc'', ''Output'']) \<and>
         (sublist ''Input'' message \<longleftrightarrow> ''Input'' \<notin> set existing) \<and>
         (sublist ''Calc'' message \<longleftrightarrow> ''Calc'' \<notin> set existing) \<and>
         (sublist ''Output'' message \<longleftrightarrow> ''Output'' \<notin> set existing))"
  using conn ws
  by (cases "''Input'' \<in> set existing"; cases "''Calc'' \<in> set existing";
      cases "''Output'' \<in> set existing")
     (auto simp add: verify_sheet_structure_def required_sheets_def
        mentions_Input mentions_Calc mentions_Output)

theorem verify_sheet_structure_contract_witness:
  "verify_sheet_structure (env_without_sheet ''Calc'') connected_service [] =
     (Inr (False, ''Missing required sheets: Calc''), [Worksheets]) \<and>
   sublist ''Calc'' ''Missing required sheets: Calc'' \<and>
   \<not> sublist ''Input'' ''Missing required sheets: Calc'' \<and>
   \<not> sublist ''Output'' ''Missing required sheets: Calc''"
proof -
  have conn: "spreadsheet connected_service \<noteq> None"
    by (simp add: connected_service_def)
  have ws: "worksheets (env_without_sheet ''Calc'') [] = Inr [''Input'', ''Output'']"
    by (simp add: env_without_sheet_def sample_env_def)
  from verify_sheet_structure_contract [OF conn ws]
  obtain ok message where
    res: "verify_sheet_structure (env_without_sheet ''Calc'') connected_service [] =
            (Inr (ok, message), [] @ [Worksheets])"
    and ok: "ok \<longleftrightarrow> ''Input'' \<in> set [''Input'', ''Output''] \<and>
                ''Calc'' \<in> set [''Input'', ''Output''] \<and> ''Output'' \<in> set [''Input'', ''Output'']"
    and msg: "\<not> ok \<longrightarrow>
         message = ''Missing required sheets: '' @
                     join '', '' (filter (\<lambda>s. s \<notin> set [''Input'', ''Output''])
                                   [''Input'', ''Calc'', ''Output'']) \<and>
         (sublist ''Input'' message \<longleftrightarrow> ''Input'' \<notin> set [''Input'', ''Output'']) \<and>
         (sublist ''Calc'' message \<longleftrightarrow> ''Calc'' \<notin> set [''Input'', ''Output'']) \<and>
         (sublist ''Output'' message \<longleftrightarrow> ''Output'' \<notin> set [''Input'', ''Output''])"
    by blast
  from ok have nok: "\<not> ok" by simp
  with msg have m: "message = ''Missing required sheets: Calc''" by simp
  from nok msg m have "sublist ''Calc'' ''Missing required sheets: Calc''"
    and "\<not> sublist ''Input'' ''Missing required sheets: Calc''"
    and "\<not> sublist ''Output'' ''Missing required sheets: Calc''"
    by simp_all
  with res nok m show ?thesis by simp
qed

subsection \<open>Every operation on a service without a spreadsheet\<close>

text \<open>
  Claim C5, as amended. On a service whose \<^verbatim>\<open>spreadsheet\<close> is unset,
  \<^verbatim>\<open>write_inputs\<close> and \<^verbatim>\<open>read_outputs\<close> raise the not-authenticated exception, and
  so does \<^verbatim>\<open>calculate_interest\<close> when it reaches its write step without connecting
  (the \<^verbatim>\<open>client\<close> is set); \<^verbatim>\<open>verify_sheet_structure\<close> raises nothing and returns
  the pair \<open>(False, Not authenticated)\<close>. In all four the trace is unchanged: no
  library call is made.
\<close>

theorem disconnected_operations_fail_fast:
  assumes "spreadsheet g = None"
  shows "write_inputs E g tr p r t sn pc rc tc =
           (Inl (Raise Exception ''Not authenticated. Call authenticate() first.''), tr) \<and>
         read_outputs E g tr osn sc cc =
           (Inl (Raise Exception ''Not authenticated. Call authenticate() first.''), tr) \<and>
         (client g \<noteq> None \<longrightarrow>
            calculate_interest E g tr p r t =
              (Inl (Raise Exception ''Not authenticated. Call authenticate() first.''), g, tr)) \<and>
         verify_sheet_structure E g tr = (Inr (False, ''Not authenticated''), tr)"
  using assms
  by (auto simp add: write_inputs_def read_outputs_def calculate_interest_def
        verify_sheet_structure_def)

theorem disconnected_operations_fail_fast_witness:
  "write_inputs sample_env half_connected_service [] 10000 (11 / 2) 3
       ''Input'' ''B2'' ''B3'' ''B4'' =
     (Inl (Raise Exception ''Not authenticated. Call authenticate() first.''), []) \<and>
   read_outputs sample_env half_connected_service [] ''Output'' ''B2'' ''B3'' =
     (Inl (Raise Exception ''Not authenticated. Call authenticate() first.''), []) \<and>
   calculate_interest sample_env half_connected_service [] 10000 (11 / 2) 3 =
     (Inl (Raise Exception ''Not authenticated. Call authenticate() first.''),
      half_connected_service, []) \<and>
   verify_sheet_structure sample_env half_connected_service [] =
     (Inr (False, ''Not authenticated''), [])"
proof -
  have s: "spreadsheet half_connected_service = None"
    by (simp add: half_connected_service_def fresh_service_def)
  have c: "client half_connected_service \<noteq> None"
    by (simp add: half_connected_service_def)
  from disconnected_operations_fail_fast [OF s] c show ?thesis by blast
qed

text \<open>
  The claim as the specification words it lets \<^verbatim>\<open>verify_sheet_structure\<close> fail with the
  not-connected error too. It does not raise: it returns a pair.
\<close>

theorem verify_disconnected_returns_counterexample:
  "fst (verify_sheet_structure sample_env fresh_service []) = Inr (False, ''Not authenticated'') \<and>
   fst (verify_sheet_structure sample_env fresh_service []) \<noteq>
     Inl (Raise Exception ''Not authenticated. Call authenticate() first.'')"
  by (simp add: verify_sheet_structure_def fresh_service_def)

subsection \<open>Reading the outputs\<close>

lemma read_outputs_missing_sheet:
  assumes "spreadsheet g \<noteq> None"
    and "worksheet E tr sh = Some e" and "cls e = WorksheetNotFound"
  shows "read_outputs E g tr sh sc cc =
      (Inl (Raise Exception (''Worksheet '' @ [CHR 0x27] @ sh @ [CHR 0x27] @
              '' not found. Please ensure the sheet exists.'')), tr @ [Worksheet sh])"
  using assms by (simp add: read_outputs_def read_outputs_try_def read_outputs_except_def)

lemma read_outputs_values:
  assumes "spreadsheet g \<noteq> None"
    and "worksheet E tr sh = None"
    and "acell E (tr @ [Worksheet sh]) sh sc = Inr a"
    and "acell E (tr @ [Worksheet sh, Acell sh sc]) sh cc = Inr b"
    and "(a = None \<or> a = Some []) \<and> x = 0 \<or> (\<exists>s. a = Some s \<and> s \<noteq> [] \<and> pyfloat E s = Some x)"
    and "(b = None \<or> b = Some []) \<and> y = 0 \<or> (\<exists>s. b = Some s \<and> s \<noteq> [] \<and> pyfloat E s = Some y)"
  shows "read_outputs E g tr sh sc cc =
      (Inr [''simpleInterest'' \<mapsto> x, ''compoundInterest'' \<mapsto> y],
       tr @ [Worksheet sh, Acell sh sc, Acell sh cc])"
  using assms
  by (auto simp add: read_outputs_def read_outputs_try_def cell_to_float_def)

lemma read_outputs_bad_simple:
  assumes "spreadsheet g \<noteq> None"
    and "worksheet E tr sh = None"
    and "acell E (tr @ [Worksheet sh]) sh sc = Inr (Some s)"
    and "acell E (tr @ [Worksheet sh, Acell sh sc]) sh cc = Inr b"
    and "s \<noteq> []" and "pyfloat E s = None"
  shows "read_outputs E g tr sh sc cc =
      (Inl (Raise Exception
              (''Failed to read outputs: Invalid simple interest value in '' @ sc @ '': '' @ s)),
       tr @ [Worksheet sh, Acell sh sc, Acell sh cc])"
  using assms
  by (auto simp add: read_outputs_def read_outputs_try_def cell_to_float_def
        read_outputs_except_def py_str_Exception)

lemma read_outputs_bad_compound:
  assumes "spreadsheet g \<noteq> None"
    and "worksheet E tr sh = None"
    and "acell E (tr @ [Worksheet sh]) sh sc = Inr a"
    and "acell E (tr @ [Worksheet sh, Acell sh sc]) sh cc = Inr (Some s)"
    and "a = None \<or> a = Some [] \<or> (\<exists>s' x. a = Some s' \<and> pyfloat E s' = Some x)"
    and "s \<noteq> []" and "pyfloat E s = None"
  shows "read_outputs E g tr sh sc cc =
      (Inl (Raise Exception
              (''Failed to read outputs: Invalid compound interest value in '' @ cc @ '': '' @ s)),
       tr @ [Worksheet sh, Acell sh sc, Acell sh cc])"
  using assms
  by (auto simp add: read_outputs_def read_outputs_try_def cell_to_float_def
        read_outputs_except_def py_str_Exception)

text \<open>
  Claim C4. On a service that holds a spreadsheet, \<^verbatim>\<open>read_outputs\<close> looks the sheet up
  and reads the two cells. When the lookup raises \<^verbatim>\<open>WorksheetNotFound\<close> it raises the
  exception that says the worksheet was not found. When both reads return: a cell that
  is empty (\<^verbatim>\<open>None\<close> or the empty string) gives 0.0 for its field and a cell that
  \<^verbatim>\<open>float\<close> parses gives the parsed number; a non-empty cell that \<^verbatim>\<open>float\<close> rejects
  makes the call raise an exception whose message names the cell and its content.
\<close>

theorem read_outputs_contract:
  assumes conn: "spreadsheet g \<noteq> None"
  shows
   "(worksheet E tr sh = Some e \<and> cls e = WorksheetNotFound \<longrightarrow>
       read_outputs E g tr sh sc cc =
         (Inl (Raise Exception (''Worksheet '' @ [CHR 0x27] @ sh @ [CHR 0x27] @
                 '' not found. Please ensure the sheet exists.'')), tr @ [Worksheet sh])) \<and>
    (worksheet E tr sh = None \<and> acell E (tr @ [Worksheet sh]) sh sc = Inr a \<and>
     acell E (tr @ [Worksheet sh, Acell sh sc]) sh cc = Inr b \<longrightarrow>
       (((a = None \<or> a = Some []) \<and> x = 0 \<or>
           (\<exists>s. a = Some s \<and> s \<noteq> [] \<and> pyfloat E s = Some x)) \<and>
        ((b = None \<or> b = Some []) \<and> y = 0 \<or>
           (\<exists>s. b = Some s \<and> s \<noteq> [] \<and> pyfloat E s = Some y)) \<longrightarrow>
          read_outputs E g tr sh sc cc =
            (Inr [''simpleInterest'' \<mapsto> x, ''compoundInterest'' \<mapsto> y],
             tr @ [Worksheet sh, Acell sh sc, Acell sh cc])) \<and>
       (\<forall>s. a = Some s \<and> s \<noteq> [] \<and> pyfloat E s = None \<longrightarrow>
          read_outputs E g tr sh sc cc =
            (Inl (Raise Exception
                    (''Failed to read outputs: Invalid simple interest value in '' @ sc @
                     '': '' @ s)),
             tr @ [Worksheet sh, Acell sh sc, Acell sh cc])) \<and>
       (\<forall>s. (a = None \<or> a = Some [] \<or> (\<exists>s' v. a = Some s' \<and> pyfloat E s' = Some v)) \<and>
            b = Some s \<and> s \<noteq> [] \<and> pyfloat E s = None \<longrightarrow>
          read_outputs E g tr sh sc cc =
            (Inl (Raise Exception
                    (''Failed to read outputs: Invalid compound interest value in '' @ cc @
                     '': '' @ s)),
             tr @ [Worksheet sh, Acell sh sc, Acell sh cc])))"
  using read_outputs_missing_sheet [OF conn, of E tr sh e sc cc]
    read_outputs_values [OF conn, of E tr sh sc a cc b x y]
    read_outputs_bad_simple [OF conn, of E tr sh sc _ cc b]
    read_outputs_bad_compound [OF conn, of E tr sh sc a cc]
  by blast

theorem read_outputs_contract_witness:
  "read_outputs (env_with_outputs None (Some ''1742.41'')) connected_service []
       ''Output'' ''B2'' ''B3'' =
     (Inr [''simpleInterest'' \<mapsto> 0, ''compoundInterest'' \<mapsto> 174241 / 100],
      [Worksheet ''Output'', Acell ''Output'' ''B2'', Acell ''Output'' ''B3'']) \<and>
   read_outputs (env_with_outputs (Some ''abc'') None) connected_service []
       ''Output'' ''B2'' ''B3'' =
     (Inl (Raise Exception ''Failed to read outputs: Invalid simple interest value in B2: abc''),
      [Worksheet ''Output'', Acell ''Output'' ''B2'', Acell ''Output'' ''B3'']) \<and>
   read_outputs (env_without_sheet ''Output'') connected_service [] ''Output'' ''B2'' ''B3'' =
     (Inl (Raise Exception ''Worksheet 'Output' not found. Please ensure the sheet exists.''),
      [Worksheet ''Output''])"
proof -
  let ?E1 = "env_with_outputs None (Some ''1742.41'')"
  let ?E2 = "env_with_outputs (Some ''abc'') None"
  let ?E3 = "env_without_sheet ''Output''"
  have conn: "spreadsheet connected_service \<noteq> None"
    by (simp add: connected_service_def)
  have calls1: "worksheet ?E1 [] ''Output'' = None \<and>
      acell ?E1 ([] @ [Worksheet ''Output'']) ''Output'' ''B2'' = Inr None \<and>
      acell ?E1 ([] @ [Worksheet ''Output'', Acell ''Output'' ''B2'']) ''Output'' ''B3'' =
        Inr (Some ''1742.41'')"
    by (simp add: env_with_outputs_def sample_env_def)
  have vals1: "(((None :: string option) = None \<or> (None :: string option) = Some []) \<and>
        (0::real) = 0 \<or>
        (\<exists>s. (None :: string option) = Some s \<and> s \<noteq> [] \<and> pyfloat ?E1 s = Some 0)) \<and>
      ((Some ''1742.41'' = None \<or> Some ''1742.41'' = Some []) \<and> (174241 / 100 :: real) = 0 \<or>
        (\<exists>s. Some ''1742.41'' = Some s \<and> s \<noteq> [] \<and> pyfloat ?E1 s = Some (174241 / 100)))"
    by (simp add: env_with_outputs_def sample_env_def)
  from read_outputs_contract [OF conn, where E = ?E1 and tr = "[]" and sh = "''Output''"
      and sc = "''B2''" and cc = "''B3''" and a = None and b = "Some ''1742.41''"
      and x = 0 and y = "174241 / 100"] calls1 vals1
  have r1: "read_outputs ?E1 connected_service [] ''Output'' ''B2'' ''B3'' =
     (Inr [''simpleInterest'' \<mapsto> 0, ''compoundInterest'' \<mapsto> 174241 / 100],
      [] @ [Worksheet ''Output'', Acell ''Output'' ''B2'', Acell ''Output'' ''B3''])"
    by blast
  have calls2: "worksheet ?E2 [] ''Output'' = None \<and>
      acell ?E2 ([] @ [Worksheet ''Output'']) ''Output'' ''B2'' = Inr (Some ''abc'') \<and>
      acell ?E2 ([] @ [Worksheet ''Output'', Acell ''Output'' ''B2'']) ''Output'' ''B3'' = Inr None"
    by (simp add: env_with_outputs_def sample_env_def)
  have vals2: "Some ''abc'' = Some ''abc'' \<and> ''abc'' \<noteq> [] \<and> pyfloat ?E2 ''abc'' = None"
    by (simp add: env_with_outputs_def sample_env_def)
  from read_outputs_contract [OF conn, where E = ?E2 and tr = "[]" and sh = "''Output''"
      and sc = "''B2''" and cc = "''B3''" and a = "Some ''abc''" and b = None] calls2 vals2
  have r2: "read_outputs ?E2 connected_service [] ''Output'' ''B2'' ''B3'' =
     (Inl (Raise Exception
             (''Failed to read outputs: Invalid simple interest value in '' @ ''B2'' @
              '': '' @ ''abc'')),
      [] @ [Worksheet ''Output'', Acell ''Output'' ''B2'', Acell ''Output'' ''B3''])"
    by blast
  have calls3: "worksheet ?E3 [] ''Output'' = Some (Raise WorksheetNotFound ''Output'') \<and>
      cls (Raise WorksheetNotFound ''Output'') = WorksheetNotFound"
    by (simp add: env_without_sheet_def sample_env_def)
  from read_outputs_contract [OF conn, where E = ?E3 and tr = "[]" and sh = "''Output''"
      and sc = "''B2''" and cc = "''B3''" and e = "Raise WorksheetNotFound ''Output''"] calls3
  have r3: "read_outputs ?E3 connected_service [] ''Output'' ''B2'' ''B3'' =
     (Inl (Raise Exception (''Worksheet '' @ [CHR 0x27] @ ''Output'' @ [CHR 0x27] @
             '' not found. Please ensure the sheet exists.'')), [] @ [Worksheet ''Output''])"
    by blast
  from r1 r2 r3 show ?thesis by simp
qed

subsection \<open>The calculation workflow\<close>

lemma calculate_interest_returns:
  assumes "calculate_interest E g tr p r t = (Inr res, g', tr')"
  shows "\<exists>pre a b x y.
      pre = tr @ (if client g = None
                  then [FromServiceAccountFile (credentials_path g), Authorize,
                        OpenByKey (sheet_id g)]
                  else []) \<and>
      tr' = pre @ [Worksheet ''Input'', UpdateAcell ''Input'' ''B2'' p,
                   UpdateAcell ''Input'' ''B3'' r, UpdateAcell ''Input'' ''B4'' t, Sleep (1 / 2),
                   Worksheet ''Output'', Acell ''Output'' ''B2'', Acell ''Output'' ''B3''] \<and>
      acell E (pre @ [Worksheet ''Input'', UpdateAcell ''Input'' ''B2'' p,
                   UpdateAcell ''Input'' ''B3'' r, UpdateAcell ''Input'' ''B4'' t, Sleep (1 / 2),
                   Worksheet ''Output'']) ''Output'' ''B2'' = Inr a \<and>
      acell E (pre @ [Worksheet ''Input'', UpdateAcell ''Input'' ''B2'' p,
                   UpdateAcell ''Input'' ''B3'' r, UpdateAcell ''Input'' ''B4'' t, Sleep (1 / 2),
                   Worksheet ''Output'', Acell ''Output'' ''B2'']) ''Output'' ''B3'' = Inr b \<and>
      cell_to_float E ''simple interest'' ''B2'' a = Inr x \<and>
      cell_to_float E ''compound interest'' ''B3'' b = Inr y \<and>
      res = [''simpleInterest'' \<mapsto> x, ''compoundInterest'' \<mapsto> y]"
proof (cases "client g = None")
  case True
  with assms obtain u g1 tr1 where au: "authenticate E g tr = (Inr u, g1, tr1)"
    by (auto simp add: calculate_interest_def split: prod.splits sum.splits)
  with assms True obtain u' tr2 where
    wi: "write_inputs E g1 tr1 p r t ''Input'' ''B2'' ''B3'' ''B4'' = (Inr u', tr2)"
    and ro: "read_outputs E g1 tr2 ''Output'' ''B2'' ''B3'' = (Inr res, tr')"
    by (auto simp add: calculate_interest_def split: prod.splits sum.splits)
  from authenticate_returns [OF au] write_inputs_returns [OF wi] read_outputs_returns [OF ro] True
  show ?thesis by auto
next
  case False
  with assms obtain u' tr2 where
    wi: "write_inputs E g tr p r t ''Input'' ''B2'' ''B3'' ''B4'' = (Inr u', tr2)"
    and ro: "read_outputs E g tr2 ''Output'' ''B2'' ''B3'' = (Inr res, tr')"
    by (auto simp add: calculate_interest_def split: prod.splits sum.splits)
  from write_inputs_returns [OF wi] read_outputs_returns [OF ro] False
  show ?thesis by auto
qed

lemma calculate_interest_connected:
  assumes "client g \<noteq> None" and "spreadsheet g \<noteq> None"
    and "worksheet E tr ''Input'' = None"
    and "update_acell E (tr @ [Worksheet ''Input'']) ''Input'' ''B2'' p = None"
    and "update_acell E (tr @ [Worksheet ''Input'', UpdateAcell ''Input'' ''B2'' p])
           ''Input'' ''B3'' r = None"
    and "update_acell E (tr @ [Worksheet ''Input'', UpdateAcell ''Input'' ''B2'' p,
            UpdateAcell ''Input'' ''B3'' r]) ''Input'' ''B4'' t = None"
    and "worksheet E (tr @ [Worksheet ''Input'', UpdateAcell ''Input'' ''B2'' p,
            UpdateAcell ''Input'' ''B3'' r, UpdateAcell ''Input'' ''B4'' t, Sleep (1 / 2)])
           ''Output'' = None"
    and "acell E (tr @ [Worksheet ''Input'', UpdateAcell ''Input'' ''B2'' p,
            UpdateAcell ''Input'' ''B3'' r, UpdateAcell ''Input'' ''B4'' t, Sleep (1 / 2),
            Worksheet ''Output'']) ''Output'' ''B2'' = Inr a"
    and "acell E (tr @ [Worksheet ''Input'', UpdateAcell ''Input'' ''B2'' p,
            UpdateAcell ''Input'' ''B3'' r, UpdateAcell ''Input'' ''B4'' t, Sleep (1 / 2),
            Worksheet ''Output'', Acell ''Output'' ''B2'']) ''Output'' ''B3'' = Inr b"
    and "cell_to_float E ''simple interest'' ''B2'' a = Inr x"
    and "cell_to_float E ''compound interest'' ''B3'' b = Inr y"
  shows "calculate_interest E g tr p r t =
           (Inr [''simpleInterest'' \<mapsto> x, ''compoundInterest'' \<mapsto> y], g,
            tr @ [Worksheet ''Input'', UpdateAcell ''Input'' ''B2'' p,
                  UpdateAcell ''Input'' ''B3'' r, UpdateAcell ''Input'' ''B4'' t, Sleep (1 / 2),
                  Worksheet ''Output'', Acell ''Output'' ''B2'', Acell ''Output'' ''B3''])"
  using assms
  by (auto simp add: calculate_interest_def write_inputs_def write_inputs_try_def
        read_outputs_def read_outputs_try_def Let_def)

text \<open>
  Claim C1. \<^verbatim>\<open>calculate_interest\<close> of the service performs one fixed sequence of
  library calls. On a connected service (client and spreadsheet set) whose library calls
  all return and whose two output cells convert, it looks up the sheet \<open>Input\<close>, writes
  principal, rate and time to B2, B3 and B4, sleeps 0.5, looks up the sheet \<open>Output\<close>,
  reads B2 and B3, and returns the two converted cell values under the keys
  \<open>simpleInterest\<close> and \<open>compoundInterest\<close>. And whenever it returns a result, on any
  service, the calls it made are exactly these, preceded by the three calls of
  \<^verbatim>\<open>authenticate\<close> if and only if the client was unset; the result holds nothing but
  the conversions of what the two reads returned.
\<close>

theorem calculate_interest_sequence:
  "(client g \<noteq> None \<and> spreadsheet g \<noteq> None \<and>
    worksheet E tr ''Input'' = None \<and>
    update_acell E (tr @ [Worksheet ''Input'']) ''Input'' ''B2'' p = None \<and>
    update_acell E (tr @ [Worksheet ''Input'', UpdateAcell ''Input'' ''B2'' p])
      ''Input'' ''B3'' r = None \<and>
    update_acell E (tr @ [Worksheet ''Input'', UpdateAcell ''Input'' ''B2'' p,
      UpdateAcell ''Input'' ''B3'' r]) ''Input'' ''B4'' t = None \<and>
    worksheet E (tr @ [Worksheet ''Input'', UpdateAcell ''Input'' ''B2'' p,
      UpdateAcell ''Input'' ''B3'' r, UpdateAcell ''Input'' ''B4'' t, Sleep (1 / 2)])
      ''Output'' = None \<and>
    acell E (tr @ [Worksheet ''Input'', UpdateAcell ''Input'' ''B2'' p,
      UpdateAcell ''Input'' ''B3'' r, UpdateAcell ''Input'' ''B4'' t, Sleep (1 / 2),
      Worksheet ''Output'']) ''Output'' ''B2'' = Inr a \<and>
    acell E (tr @ [Worksheet ''Input'', UpdateAcell ''Input'' ''B2'' p,
      UpdateAcell ''Input'' ''B3'' r, UpdateAcell ''Input'' ''B4'' t, Sleep (1 / 2),
      Worksheet ''Output'', Acell ''Output'' ''B2'']) ''Output'' ''B3'' = Inr b \<and>
    cell_to_float E ''simple interest'' ''B2'' a = Inr x \<and>
    cell_to_float E ''compound interest'' ''B3'' b = Inr y \<longrightarrow>
      calculate_interest E g tr p r t =
        (Inr [''simpleInterest'' \<mapsto> x, ''compoundInterest'' \<mapsto> y], g,
         tr @ [Worksheet ''Input'', UpdateAcell ''Input'' ''B2'' p,
               UpdateAcell ''Input'' ''B3'' r, UpdateAcell ''Input'' ''B4'' t, Sleep (1 / 2),
               Worksheet ''Output'', Acell ''Output'' ''B2'', Acell ''Output'' ''B3''])) \<and>
   (calculate_interest E g tr p r t = (Inr res, g', tr') \<longrightarrow>
      (\<exists>pre a' b' x' y'.
         pre = tr @ (if client g = None
                     then [FromServiceAccountFile (credentials_path g), Authorize,
                           OpenByKey (sheet_id g)]
                     else []) \<and>
         tr' = pre @ [Worksheet ''Input'', UpdateAcell ''Input'' ''B2'' p,
                      UpdateAcell ''Input'' ''B3'' r, UpdateAcell ''Input'' ''B4'' t,
                      Sleep (1 / 2),
                      Worksheet ''Output'', Acell ''Output'' ''B2'', Acell ''Output'' ''B3''] \<and>
         acell E (pre @ [Worksheet ''Input'', UpdateAcell ''Input'' ''B2'' p,
                      UpdateAcell ''Input'' ''B3'' r, UpdateAcell ''Input'' ''B4'' t,
                      Sleep (1 / 2), Worksheet ''Output'']) ''Output'' ''B2'' = Inr a' \<and>
         acell E (pre @ [Worksheet ''Input'', UpdateAcell ''Input'' ''B2'' p,
                      UpdateAcell ''Input'' ''B3'' r, UpdateAcell ''Input'' ''B4'' t,
                      Sleep (1 / 2), Worksheet ''Output'',
                      Acell ''Output'' ''B2'']) ''Output'' ''B3'' = Inr b' \<and>
         cell_to_float E ''simple interest'' ''B2'' a' = Inr x' \<and>
         cell_to_float E ''compound interest'' ''B3'' b' = Inr y' \<and>
         res = [''simpleInterest'' \<mapsto> x', ''compoundInterest'' \<mapsto> y']))"
proof (intro conjI impI)
  assume "calculate_interest E g tr p r t = (Inr res, g', tr')"
  then show "\<exists>pre a' b' x' y'.
         pre = tr @ (if client g = None
                     then [FromServiceAccountFile (credentials_path g), Authorize,
                           OpenByKey (sheet_id g)]
                     else []) \<and>
         tr' = pre @ [Worksheet ''Input'', UpdateAcell ''Input'' ''B2'' p,
                      UpdateAcell ''Input'' ''B3'' r, UpdateAcell ''Input'' ''B4'' t,
                      Sleep (1 / 2),
                      Worksheet ''Output'', Acell ''Output'' ''B2'', Acell ''Output'' ''B3''] \<and>
         acell E (pre @ [Worksheet ''Input'', UpdateAcell ''Input'' ''B2'' p,
                      UpdateAcell ''Input'' ''B3'' r, UpdateAcell ''Input'' ''B4'' t,
                      Sleep (1 / 2), Worksheet ''Output'']) ''Output'' ''B2'' = Inr a' \<and>
         acell E (pre @ [Worksheet ''Input'', UpdateAcell ''Input'' ''B2'' p,
                      UpdateAcell ''Input'' ''B3'' r, UpdateAcell ''Input'' ''B4'' t,
                      Sleep (1 / 2), Worksheet ''Output'',
                      Acell ''Output'' ''B2'']) ''Output'' ''B3'' = Inr b' \<and>
         cell_to_float E ''simple interest'' ''B2'' a' = Inr x' \<and>
         cell_to_float E ''compound interest'' ''B3'' b' = Inr y' \<and>
         res = [''simpleInterest'' \<mapsto> x', ''compoundInterest'' \<mapsto> y']"
    by (rule calculate_interest_returns)
qed (elim conjE, rule calculate_interest_connected; assumption)

theorem calculate_interest_sequence_witness:
  "calculate_interest sample_env connected_service [] 10000 (11 / 2) 3 =
     (Inr [''simpleInterest'' \<mapsto> 1650, ''compoundInterest'' \<mapsto> 174241 / 100],
      connected_service,
      [Worksheet ''Input'', UpdateAcell ''Input'' ''B2'' 10000,
       UpdateAcell ''Input'' ''B3'' (11 / 2), UpdateAcell ''Input'' ''B4'' 3, Sleep (1 / 2),
       Worksheet ''Output'', Acell ''Output'' ''B2'', Acell ''Output'' ''B3''])"
proof -
  have hyps: "client connected_service \<noteq> None \<and> spreadsheet connected_service \<noteq> None \<and>
    worksheet sample_env [] ''Input'' = None \<and>
    update_acell sample_env ([] @ [Worksheet ''Input'']) ''Input'' ''B2'' 10000 = None \<and>
    update_acell sample_env ([] @ [Worksheet ''Input'', UpdateAcell ''Input'' ''B2'' 10000])
      ''Input'' ''B3'' (11 / 2) = None \<and>
    update_acell sample_env ([] @ [Worksheet ''Input'', UpdateAcell ''Input'' ''B2'' 10000,
      UpdateAcell ''Input'' ''B3'' (11 / 2)]) ''Input'' ''B4'' 3 = None \<and>
    worksheet sample_env ([] @ [Worksheet ''Input'', UpdateAcell ''Input'' ''B2'' 10000,
      UpdateAcell ''Input'' ''B3'' (11 / 2), UpdateAcell ''Input'' ''B4'' 3, Sleep (1 / 2)])
      ''Output'' = None \<and>
    acell sample_env ([] @ [Worksheet ''Input'', UpdateAcell ''Input'' ''B2'' 10000,
      UpdateAcell ''Input'' ''B3'' (11 / 2), UpdateAcell ''Input'' ''B4'' 3, Sleep (1 / 2),
      Worksheet ''Output'']) ''Output'' ''B2'' = Inr (Some ''1650'') \<and>
    acell sample_env ([] @ [Worksheet ''Input'', UpdateAcell ''Input'' ''B2'' 10000,
      UpdateAcell ''Input'' ''B3'' (11 / 2), UpdateAcell ''Input'' ''B4'' 3, Sleep (1 / 2),
      Worksheet ''Output'', Acell ''Output'' ''B2'']) ''Output'' ''B3'' = Inr (Some ''1742.41'') \<and>
    cell_to_float sample_env ''simple interest'' ''B2'' (Some ''1650'') = Inr 1650 \<and>
    cell_to_float sample_env ''compound interest'' ''B3'' (Some ''1742.41'') =
      Inr (174241 / 100)"
    by (simp add: connected_service_def sample_env_def cell_to_float_def)
  from calculate_interest_sequence [where E = sample_env and g = connected_service
      and tr = "[]" and p = 10000 and r = "11 / 2" and t = 3 and a = "Some ''1650''"
      and b = "Some ''1742.41''" and x = 1650 and y = "174241 / 100"] hyps
  have "calculate_interest sample_env connected_service [] 10000 (11 / 2) 3 =
     (Inr [''simpleInterest'' \<mapsto> 1650, ''compoundInterest'' \<mapsto> 174241 / 100],
      connected_service,
      [] @ [Worksheet ''Input'', UpdateAcell ''Input'' ''B2'' 10000,
       UpdateAcell ''Input'' ''B3'' (11 / 2), UpdateAcell ''Input'' ''B4'' 3, Sleep (1 / 2),
       Worksheet ''Output'', Acell ''Output'' ''B2'', Acell ''Output'' ''B3''])"
    by blast
  then show ?thesis by simp
qed

subsection \<open>The route \<^verbatim>\<open>POST /calculate\<close>\<close>

lemma get_sheets_service_raises:
  assumes "get_sheets_service E cfg st tr = (Inl e, st1, tr1)"
  shows "cls e = HTTPException 500"
  using assms
  by (auto simp add: get_sheets_service_def split: option.splits prod.splits sum.splits)

lemma route_try_raises:
  assumes "main_calculate_interest_try E cfg st tr req = (Inl e, st1, tr1)"
  shows "cls e \<noteq> ValueError"
proof -
  from assms consider
      (a) "get_sheets_service E cfg st tr = (Inl e, st1, tr1)"
    | (b) g tr0 g1 where
        "calculate_interest E g tr0 (CalculateRequest.principal req)
           (CalculateRequest.rate req) (CalculateRequest.time req) = (Inl e, g1, tr1)"
    | (c) "cls e = KeyError"
    by (auto simp add: main_calculate_interest_try_def Let_def
          split: option.splits prod.splits sum.splits)
  then show ?thesis
    by cases (auto dest: get_sheets_service_raises calculate_interest_raises)
qed

lemma route_raises:
  assumes "main_calculate_interest E cfg st tr req = (Inl e, st1, tr1)"
  shows "cls e = HTTPException 500 \<and> (\<exists>m. msg e = ''Calculation failed: '' @ m)"
proof -
  from assms obtain e0 where
    t: "main_calculate_interest_try E cfg st tr req = (Inl e0, st1, tr1)"
    and e: "e = main_calculate_interest_except E e0"
    by (auto simp add: main_calculate_interest_def split: prod.splits sum.splits)
  from route_try_raises [OF t] e show ?thesis
    by (cases "cls e0") (simp_all add: main_calculate_interest_except_def)
qed

lemma post_calculate_status:
  "status_code (fst (post_calculate E cfg st tr req)) = 200 \<or>
   status_code (fst (post_calculate E cfg st tr req)) = 500 \<and>
   (\<exists>m. content (fst (post_calculate E cfg st tr req)) =
      [(''error'', JString (''Calculation failed: '' @ m))])"
proof (cases "main_calculate_interest E cfg st tr req")
  case (fields res st1 tr1)
  show ?thesis
  proof (cases res)
    case (Inl e)
    with fields route_raises [of E cfg st tr req e st1 tr1] show ?thesis
      by (auto simp add: post_calculate_def http_exception_handler_def)
  next
    case (Inr resp)
    with fields show ?thesis by (simp add: post_calculate_def)
  qed
qed

lemma post_calculate_service_failure:
  assumes "get_sheets_service E cfg st tr = (Inl e, st1, tr1)"
  shows "post_calculate E cfg st tr req =
     (\<lparr>status_code = 500,
       content = [(''error'', JString (''Calculation failed: '' @ py_str E e))]\<rparr>, st1, tr1)"
  using assms get_sheets_service_raises [OF assms]
  by (simp add: post_calculate_def main_calculate_interest_def main_calculate_interest_try_def
        main_calculate_interest_except_def http_exception_handler_def)

lemma post_calculate_gateway_failure:
  assumes "get_sheets_service E cfg st tr = (Inr g, st1, tr1)"
    and "calculate_interest E g tr1 (CalculateRequest.principal req)
           (CalculateRequest.rate req) (CalculateRequest.time req) = (Inl e, g1, tr2)"
  shows "post_calculate E cfg st tr req =
     (\<lparr>status_code = 500,
       content = [(''error'', JString (''Calculation failed: '' @ msg e))]\<rparr>,
      st1\<lparr>sheets_service := Some g1\<rparr>, tr2)"
  using assms calculate_interest_raises [OF assms(2)]
  by (simp add: post_calculate_def main_calculate_interest_def main_calculate_interest_try_def
        main_calculate_interest_except_def http_exception_handler_def py_str_def)

lemma post_calculate_success:
  assumes "get_sheets_service E cfg st tr = (Inr g, st1, tr1)"
    and "calculate_interest E g tr1 p r t = (Inr res, g1, tr2)"
    and "res ''simpleInterest'' = Some si" and "res ''compoundInterest'' = Some ci"
  shows "post_calculate E cfg st tr
           \<lparr>CalculateRequest.principal = p, CalculateRequest.rate = r,
            CalculateRequest.time = t\<rparr> =
     (\<lparr>status_code = 200,
       content = [(''simpleInterest'', JNumber (pyround E si 2)),
                  (''compoundInterest'', JNumber (pyround E ci 2)),
                  (''principal'', JNumber p), (''rate'', JNumber r), (''time'', JNumber t)]\<rparr>,
      st1\<lparr>sheets_service := Some g1\<rparr>, tr2)"
  using assms
  by (simp add: post_calculate_def main_calculate_interest_def main_calculate_interest_try_def
        CalculateResponse_json_def json_of_optional_def)

text \<open>
  Claim C9. When the service is obtained and its \<^verbatim>\<open>calculate_interest\<close> returns a
  result, the response has status 200; its \<open>principal\<close>, \<open>rate\<close> and \<open>time\<close> are the
  request's values unchanged, and its \<open>simpleInterest\<close> and \<open>compoundInterest\<close> are
  \<^verbatim>\<open>round(v, 2)\<close> of the converted values of the cells B2 and B3 of \<open>Output\<close>, as the
  last two library calls read them.
\<close>

theorem successful_response_echoes_and_rounds:
  assumes svc: "get_sheets_service E cfg st tr = (Inr g, st1, tr1)"
    and calc: "calculate_interest E g tr1 p r t = (Inr res, g1, tr2)"
  shows "\<exists>a b si ci.
      acell E (butlast (butlast tr2)) ''Output'' ''B2'' = Inr a \<and>
      acell E (butlast tr2) ''Output'' ''B3'' = Inr b \<and>
      cell_to_float E ''simple interest'' ''B2'' a = Inr si \<and>
      cell_to_float E ''compound interest'' ''B3'' b = Inr ci \<and>
      post_calculate E cfg st tr
          \<lparr>CalculateRequest.principal = p, CalculateRequest.rate = r,
           CalculateRequest.time = t\<rparr> =
        (\<lparr>status_code = 200,
          content = [(''simpleInterest'', JNumber (pyround E si 2)),
                     (''compoundInterest'', JNumber (pyround E ci 2)),
                     (''principal'', JNumber p), (''rate'', JNumber r),
                     (''time'', JNumber t)]\<rparr>,
         st1\<lparr>sheets_service := Some g1\<rparr>, tr2)"
proof -
  from calculate_interest_returns [OF calc] obtain pre a b si ci where
    tr2: "tr2 = pre @ [Worksheet ''Input'', UpdateAcell ''Input'' ''B2'' p,
                   UpdateAcell ''Input'' ''B3'' r, UpdateAcell ''Input'' ''B4'' t, Sleep (1 / 2),
                   Worksheet ''Output'', Acell ''Output'' ''B2'', Acell ''Output'' ''B3'']"
    and a: "acell E (pre @ [Worksheet ''Input'', UpdateAcell ''Input'' ''B2'' p,
                   UpdateAcell ''Input'' ''B3'' r, UpdateAcell ''Input'' ''B4'' t, Sleep (1 / 2),
                   Worksheet ''Output'']) ''Output'' ''B2'' = Inr a"
    and b: "acell E (pre @ [Worksheet ''Input'', UpdateAcell ''Input'' ''B2'' p,
                   UpdateAcell ''Input'' ''B3'' r, UpdateAcell ''Input'' ''B4'' t, Sleep (1 / 2),
                   Worksheet ''Output'', Acell ''Output'' ''B2'']) ''Output'' ''B3'' = Inr b"
    and si: "cell_to_float E ''simple interest'' ''B2'' a = Inr si"
    and ci: "cell_to_float E ''compound interest'' ''B3'' b = Inr ci"
    and res: "res = [''simpleInterest'' \<mapsto> si, ''compoundInterest'' \<mapsto> ci]"
    by blast
  from res have keys: "res ''simpleInterest'' = Some si" "res ''compoundInterest'' = Some ci"
    by simp_all
  from tr2 a have a': "acell E (butlast (butlast tr2)) ''Output'' ''B2'' = Inr a"
    by (simp add: butlast_append)
  from tr2 b have b': "acell E (butlast tr2) ''Output'' ''B3'' = Inr b"
    by (simp add: butlast_append)
  from post_calculate_success [OF svc calc keys] a' b' si ci show ?thesis by blast
qed

lemma sample_calculation:
  "calculate_interest sample_env connected_service [] 10000 (11 / 2) 3 =
     (Inr [''simpleInterest'' \<mapsto> 1650, ''compoundInterest'' \<mapsto> 174241 / 100],
      connected_service,
      [Worksheet ''Input'', UpdateAcell ''Input'' ''B2'' 10000,
       UpdateAcell ''Input'' ''B3'' (11 / 2), UpdateAcell ''Input'' ''B4'' 3, Sleep (1 / 2),
       Worksheet ''Output'', Acell ''Output'' ''B2'', Acell ''Output'' ''B3''])"
  by (simp add: calculate_interest_def write_inputs_def write_inputs_try_def read_outputs_def
        read_outputs_try_def cell_to_float_def connected_service_def sample_env_def)

lemma sample_pyround:
  "pyround sample_env 1650 2 = 1650" "pyround sample_env (174241 / 100) 2 = 174241 / 100"
  by (simp_all add: sample_env_def)

theorem successful_response_echoes_and_rounds_witness:
  "post_calculate sample_env sample_settings \<lparr>sheets_service = Some connected_service\<rparr> []
       \<lparr>CalculateRequest.principal = 10000, CalculateRequest.rate = 11 / 2,
        CalculateRequest.time = 3\<rparr> =
     (\<lparr>status_code = 200,
       content = [(''simpleInterest'', JNumber 1650),
                  (''compoundInterest'', JNumber (174241 / 100)),
                  (''principal'', JNumber 10000), (''rate'', JNumber (11 / 2)),
                  (''time'', JNumber 3)]\<rparr>,
      \<lparr>sheets_service = Some connected_service\<rparr>,
      [Worksheet ''Input'', UpdateAcell ''Input'' ''B2'' 10000,
       UpdateAcell ''Input'' ''B3'' (11 / 2), UpdateAcell ''Input'' ''B4'' 3, Sleep (1 / 2),
       Worksheet ''Output'', Acell ''Output'' ''B2'', Acell ''Output'' ''B3''])"
proof -
  let ?st = "\<lparr>sheets_service = Some connected_service\<rparr>"
  have svc: "get_sheets_service sample_env sample_settings ?st [] =
               (Inr connected_service, ?st, [])"
    by (simp add: get_sheets_service_def)
  from successful_response_echoes_and_rounds [OF svc sample_calculation]
  obtain a b si ci where
    a: "acell sample_env
          (butlast (butlast [Worksheet ''Input'', UpdateAcell ''Input'' ''B2'' 10000,
             UpdateAcell ''Input'' ''B3'' (11 / 2), UpdateAcell ''Input'' ''B4'' 3,
             Sleep (1 / 2), Worksheet ''Output'', Acell ''Output'' ''B2'',
             Acell ''Output'' ''B3''])) ''Output'' ''B2'' = Inr a"
    and b: "acell sample_env
          (butlast [Worksheet ''Input'', UpdateAcell ''Input'' ''B2'' 10000,
             UpdateAcell ''Input'' ''B3'' (11 / 2), UpdateAcell ''Input'' ''B4'' 3,
             Sleep (1 / 2), Worksheet ''Output'', Acell ''Output'' ''B2'',
             Acell ''Output'' ''B3'']) ''Output'' ''B3'' = Inr b"
    and si: "cell_to_float sample_env ''simple interest'' ''B2'' a = Inr si"
    and ci: "cell_to_float sample_env ''compound interest'' ''B3'' b = Inr ci"
    and post: "post_calculate sample_env sample_settings ?st []
          \<lparr>CalculateRequest.principal = 10000, CalculateRequest.rate = 11 / 2,
           CalculateRequest.time = 3\<rparr> =
        (\<lparr>status_code = 200,
          content = [(''simpleInterest'', JNumber (pyround sample_env si 2)),
                     (''compoundInterest'', JNumber (pyround sample_env ci 2)),
                     (''principal'', JNumber 10000), (''rate'', JNumber (11 / 2)),
                     (''time'', JNumber 3)]\<rparr>,
         ?st\<lparr>sheets_service := Some connected_service\<rparr>,
         [Worksheet ''Input'', UpdateAcell ''Input'' ''B2'' 10000,
          UpdateAcell ''Input'' ''B3'' (11 / 2), UpdateAcell ''Input'' ''B4'' 3, Sleep (1 / 2),
          Worksheet ''Output'', Acell ''Output'' ''B2'', Acell ''Output'' ''B3''])"
    by blast
  from a have "a = Some ''1650''" by (simp add: sample_env_def)
  with si have si': "si = 1650" by (simp add: cell_to_float_def sample_env_def)
  from b have "b = Some ''1742.41''" by (simp add: sample_env_def)
  with ci have ci': "ci = 174241 / 100" by (simp add: cell_to_float_def sample_env_def)
  from post si' ci' show ?thesis by (simp add: sample_pyround)
qed

text \<open>
  Claim C7, as amended. For a request that has passed validation, \<^verbatim>\<open>POST /calculate\<close>
  answers with status 200 or with status 500, never with 400. Every failure of the
  gateway, be it that the service cannot be obtained or that its
  \<^verbatim>\<open>calculate_interest\<close> raises (connect, write, read or conversion), gives HTTP 500
  with a body that has the single key \<open>error\<close>, whose text starts with
  \<open>Calculation failed: \<close> and continues with the exception's message; there is no key
  \<open>detail\<close>.
\<close>

theorem post_calculate_failures_are_500:
  "(get_sheets_service E cfg st tr = (Inl e, st1, tr1) \<longrightarrow>
      post_calculate E cfg st tr req =
        (\<lparr>status_code = 500,
          content = [(''error'', JString (''Calculation failed: '' @ py_str E e))]\<rparr>,
         st1, tr1)) \<and>
   (get_sheets_service E cfg st tr = (Inr g, st1, tr1) \<and>
    calculate_interest E g tr1 (CalculateRequest.principal req) (CalculateRequest.rate req)
      (CalculateRequest.time req) = (Inl e, g1, tr2) \<longrightarrow>
      post_calculate E cfg st tr req =
        (\<lparr>status_code = 500,
          content = [(''error'', JString (''Calculation failed: '' @ msg e))]\<rparr>,
         st1\<lparr>sheets_service := Some g1\<rparr>, tr2)) \<and>
   (status_code (fst (post_calculate E cfg st tr req)) = 200 \<or>
    status_code (fst (post_calculate E cfg st tr req)) = 500 \<and>
    (\<exists>m. content (fst (post_calculate E cfg st tr req)) =
       [(''error'', JString (''Calculation failed: '' @ m))]))"
  using post_calculate_service_failure [of E cfg st tr e st1 tr1 req]
    post_calculate_gateway_failure [of E cfg st tr g st1 tr1 req e g1 tr2]
    post_calculate_status [of E cfg st tr req]
  by blast

lemmas service_defs =
  calculate_interest_def authenticate_def authenticate_try_def authenticate_except_def
  write_inputs_def write_inputs_try_def write_inputs_except_def
  read_outputs_def read_outputs_try_def read_outputs_except_def cell_to_float_def py_str_def

lemmas route_defs =
  post_calculate_def main_calculate_interest_def main_calculate_interest_try_def
  main_calculate_interest_except_def http_exception_handler_def get_sheets_service_def

theorem post_calculate_failures_are_500_witness:
  "post_calculate (env_without_sheet ''Output'') sample_settings
       \<lparr>sheets_service = Some connected_service\<rparr> []
       \<lparr>CalculateRequest.principal = 10000, CalculateRequest.rate = 11 / 2,
        CalculateRequest.time = 3\<rparr> =
     (\<lparr>status_code = 500,
       content = [(''error'', JString
          ''Calculation failed: Worksheet 'Output' not found. Please ensure the sheet exists.'')]\<rparr>,
      \<lparr>sheets_service = Some connected_service\<rparr>,
      [Worksheet ''Input'', UpdateAcell ''Input'' ''B2'' 10000,
       UpdateAcell ''Input'' ''B3'' (11 / 2), UpdateAcell ''Input'' ''B4'' 3, Sleep (1 / 2),
       Worksheet ''Output''])"
proof -
  let ?E = "env_without_sheet ''Output''"
  let ?st = "\<lparr>sheets_service = Some connected_service\<rparr>"
  let ?req = "\<lparr>CalculateRequest.principal = 10000, CalculateRequest.rate = 11 / 2,
               CalculateRequest.time = 3\<rparr>"
  let ?e = "Raise Exception (''Worksheet '' @ [CHR 0x27] @ ''Output'' @ [CHR 0x27] @
              '' not found. Please ensure the sheet exists.'')"
  let ?tr = "[Worksheet ''Input'', UpdateAcell ''Input'' ''B2'' 10000,
       UpdateAcell ''Input'' ''B3'' (11 / 2), UpdateAcell ''Input'' ''B4'' 3, Sleep (1 / 2),
       Worksheet ''Output'']"
  have svc: "get_sheets_service ?E sample_settings ?st [] = (Inr connected_service, ?st, [])"
    by (simp add: get_sheets_service_def)
  have calc: "calculate_interest ?E connected_service [] (CalculateRequest.principal ?req)
      (CalculateRequest.rate ?req) (CalculateRequest.time ?req) =
        (Inl ?e, connected_service, ?tr)"
    by (simp add: service_defs connected_service_def env_without_sheet_def sample_env_def)
  from post_calculate_failures_are_500 [where E = ?E and cfg = sample_settings and st = ?st
      and tr = "[]" and req = ?req and g = connected_service and ?st1.0 = ?st
      and ?tr1.0 = "[]" and e = ?e and ?g1.0 = connected_service and ?tr2.0 = ?tr] svc calc
  have "post_calculate ?E sample_settings ?st [] ?req =
        (\<lparr>status_code = 500,
          content = [(''error'', JString (''Calculation failed: '' @ msg ?e))]\<rparr>,
         ?st\<lparr>sheets_service := Some connected_service\<rparr>, ?tr)"
    by blast
  then show ?thesis by simp
qed

text \<open>
  The claim as the specification words it gives the body of a remote failure the shape
  \<open>{error, detail}\<close>. A cell that does not parse gives status 500 and a body whose only
  key is \<open>error\<close>.
\<close>

theorem remote_failure_body_counterexample:
  "status_code (fst (post_calculate (env_with_outputs (Some ''abc'') None) sample_settings
       \<lparr>sheets_service = Some connected_service\<rparr> []
       \<lparr>CalculateRequest.principal = 10000, CalculateRequest.rate = 11 / 2,
        CalculateRequest.time = 3\<rparr>)) = 500 \<and>
   map fst (content (fst (post_calculate (env_with_outputs (Some ''abc'') None) sample_settings
       \<lparr>sheets_service = Some connected_service\<rparr> []
       \<lparr>CalculateRequest.principal = 10000, CalculateRequest.rate = 11 / 2,
        CalculateRequest.time = 3\<rparr>))) = [''error'']"
  by (simp add: route_defs service_defs connected_service_def env_with_outputs_def
        sample_env_def)

subsection \<open>The singleton and the start-up hook\<close>

lemma init_returns:
  assumes "GoogleSheetsService_init E cpath sid = Inr g0"
  shows "g0 = \<lparr>credentials_path = cpath, sheet_id = sid, client = None, spreadsheet = None\<rparr>"
  using assms by (auto simp add: GoogleSheetsService_init_def split: if_splits)

lemma get_sheets_service_creates:
  assumes none: "sheets_service st = None"
    and ret: "get_sheets_service E cfg st tr = (Inr g, st1, tr1)"
  shows "st1 = st\<lparr>sheets_service := Some g\<rparr> \<and> client g = Some Client \<and>
         spreadsheet g \<noteq> None \<and>
         tr1 = tr @ [FromServiceAccountFile (get_credentials_path E cfg), Authorize,
                     OpenByKey (GOOGLE_SHEET_ID cfg)]"
proof -
  from none ret obtain g0 where
    init: "GoogleSheetsService_init E (get_credentials_path E cfg) (GOOGLE_SHEET_ID cfg) = Inr g0"
    by (cases "GoogleSheetsService_init E (get_credentials_path E cfg) (GOOGLE_SHEET_ID cfg)")
       (auto simp add: get_sheets_service_def)
  with none ret obtain u where au: "authenticate E g0 tr = (Inr u, g, tr1)"
    and st1: "st1 = st\<lparr>sheets_service := Some g\<rparr>"
    by (auto simp add: get_sheets_service_def split: prod.splits sum.splits)
  from authenticate_returns [OF au] init_returns [OF init] st1 show ?thesis by simp
qed

lemma lifespan_startup_connects:
  assumes "lifespan_startup E cfg \<lparr>sheets_service = None\<rparr> tr = (Inr (), st1, tr1)"
  shows "\<exists>g. sheets_service st1 = Some g \<and> client g = Some Client \<and> spreadsheet g \<noteq> None \<and>
           tr1 = tr @ [FromServiceAccountFile (get_credentials_path E cfg), Authorize,
                       OpenByKey (GOOGLE_SHEET_ID cfg)]"
proof -
  from assms obtain g where
    "get_sheets_service E cfg \<lparr>sheets_service = None\<rparr> tr = (Inr g, st1, tr1)"
    by (auto simp add: lifespan_startup_def split: prod.splits sum.splits)
  from get_sheets_service_creates [OF _ this] show ?thesis by simp
qed

text \<open>
  Claim C8, as amended. The service object and its connection are created by the first
  call of \<^verbatim>\<open>get_sheets_service\<close>, and the start-up hook makes that call before any
  request is served: whenever start-up succeeds from an unset global, the global then
  holds a service with client and spreadsheet set, and the three library calls of
  \<^verbatim>\<open>authenticate\<close> have been made. Every later call of \<^verbatim>\<open>get_sheets_service\<close> returns
  the stored object and makes no library call.
\<close>

theorem singleton_created_at_startup_and_reused:
  "(lifespan_startup E cfg \<lparr>sheets_service = None\<rparr> tr = (Inr (), st1, tr1) \<longrightarrow>
      (\<exists>g. sheets_service st1 = Some g \<and> client g = Some Client \<and> spreadsheet g \<noteq> None \<and>
         tr1 = tr @ [FromServiceAccountFile (get_credentials_path E cfg), Authorize,
                     OpenByKey (GOOGLE_SHEET_ID cfg)])) \<and>
   (sheets_service st = Some g' \<longrightarrow> get_sheets_service E cfg st tr' = (Inr g', st, tr'))"
  using lifespan_startup_connects [of E cfg tr st1 tr1]
  by (simp add: get_sheets_service_def)

lemma sample_startup:
  "lifespan_startup sample_env sample_settings \<lparr>sheets_service = None\<rparr> [] =
     (Inr (), \<lparr>sheets_service = Some connected_service\<rparr>,
      [FromServiceAccountFile ''/srv/app/credentials.json'', Authorize, OpenByKey ''sheet-1''])"
  by (simp add: lifespan_startup_def Settings_validate_def get_sheets_service_def
        GoogleSheetsService_init_def get_credentials_path_def authenticate_def
        authenticate_try_def sample_env_def sample_settings_def connected_service_def)

theorem singleton_created_at_startup_and_reused_witness:
  "(\<exists>g. sheets_service
          (fst (snd (lifespan_startup sample_env sample_settings
                       \<lparr>sheets_service = None\<rparr> []))) = Some g \<and>
        client g = Some Client \<and> spreadsheet g \<noteq> None) \<and>
   get_sheets_service sample_env sample_settings \<lparr>sheets_service = Some connected_service\<rparr>
       [Worksheets] =
     (Inr connected_service, \<lparr>sheets_service = Some connected_service\<rparr>, [Worksheets])"
proof -
  let ?st = "\<lparr>sheets_service = Some connected_service\<rparr>"
  have stored: "sheets_service ?st = Some connected_service"
    by simp
  from singleton_created_at_startup_and_reused [where E = sample_env
      and cfg = sample_settings and tr = "[]" and ?st1.0 = ?st
      and ?tr1.0 = "[FromServiceAccountFile ''/srv/app/credentials.json'', Authorize,
                     OpenByKey ''sheet-1'']"
      and st = ?st and g' = connected_service and tr' = "[Worksheets]"]
    sample_startup stored
  have "(\<exists>g. sheets_service ?st = Some g \<and> client g = Some Client \<and> spreadsheet g \<noteq> None) \<and>
        get_sheets_service sample_env sample_settings ?st [Worksheets] =
          (Inr connected_service, ?st, [Worksheets])"
    by blast
  then show ?thesis by (simp add: sample_startup)
qed

text \<open>
  The claim as the specification words it has no connection made before the first
  request. Start-up alone, with no request, creates the service and opens the
  spreadsheet.
\<close>

theorem startup_connects_counterexample:
  "lifespan_startup sample_env sample_settings \<lparr>sheets_service = None\<rparr> [] =
     (Inr (), \<lparr>sheets_service = Some connected_service\<rparr>,
      [FromServiceAccountFile ''/srv/app/credentials.json'', Authorize, OpenByKey ''sheet-1''])"
  by (simp add: lifespan_startup_def Settings_validate_def get_sheets_service_def
        GoogleSheetsService_init_def get_credentials_path_def authenticate_def
        authenticate_try_def sample_env_def sample_settings_def connected_service_def)

subsection \<open>A connect that fails when the spreadsheet is opened\<close>

text \<open>
  Claim C6 says that a failed connect leaves the service as it was and that the next
  use connects afresh. The code does otherwise when the credentials load and
  \<^verbatim>\<open>open_by_key\<close> raises: \<^verbatim>\<open>authenticate\<close> has already set the \<^verbatim>\<open>client\<close>, so the
  service is changed, and \<^verbatim>\<open>calculate_interest\<close>, which connects only when the
  \<^verbatim>\<open>client\<close> is unset, from then on raises the not-authenticated exception without a
  library call, whatever the remote spreadsheet has become. \<^verbatim>\<open>get_sheets_service\<close>
  has stored the object before \<^verbatim>\<open>authenticate\<close> ran, so its next call returns the
  object as it is and does not connect either.
\<close>

theorem failed_open_is_never_retried:
  assumes creds: "from_service_account_file E tr (credentials_path g) = None"
    and auth: "authorize E (tr @ [FromServiceAccountFile (credentials_path g)]) = None"
    and opn: "open_by_key E (tr @ [FromServiceAccountFile (credentials_path g), Authorize])
                (sheet_id g) = Inl e"
    and disc: "spreadsheet g = None"
  shows "\<exists>x. authenticate E g tr =
            (Inl x, g\<lparr>client := Some Client\<rparr>,
             tr @ [FromServiceAccountFile (credentials_path g), Authorize,
                   OpenByKey (sheet_id g)]) \<and>
         calculate_interest E' (g\<lparr>client := Some Client\<rparr>) tr2 p r t =
            (Inl (Raise Exception ''Not authenticated. Call authenticate() first.''),
             g\<lparr>client := Some Client\<rparr>, tr2) \<and>
         get_sheets_service E' cfg \<lparr>sheets_service = Some (g\<lparr>client := Some Client\<rparr>)\<rparr> tr2 =
            (Inr (g\<lparr>client := Some Client\<rparr>),
             \<lparr>sheets_service = Some (g\<lparr>client := Some Client\<rparr>)\<rparr>, tr2)"
  using assms
  by (simp add: authenticate_def authenticate_try_def calculate_interest_def write_inputs_def
        get_sheets_service_def)

theorem failed_open_is_never_retried_witness:
  "authenticate env_unshared fresh_service [] =
     (Inl (Raise Exception
             (''Spreadsheet not found. Check if:'' @ [CHR 0x0A] @
              ''1. Sheet ID is correct: sheet-1'' @ [CHR 0x0A] @
              ''2. Sheet is shared with service account email'')),
      half_connected_service,
      [FromServiceAccountFile ''/srv/app/credentials.json'', Authorize, OpenByKey ''sheet-1'']) \<and>
   calculate_interest sample_env half_connected_service [] 10000 (11 / 2) 3 =
     (Inl (Raise Exception ''Not authenticated. Call authenticate() first.''),
      half_connected_service, []) \<and>
   get_sheets_service sample_env sample_settings
       \<lparr>sheets_service = Some half_connected_service\<rparr> [] =
     (Inr half_connected_service, \<lparr>sheets_service = Some half_connected_service\<rparr>, [])"
proof -
  have creds: "from_service_account_file env_unshared [] (credentials_path fresh_service) = None"
    by (simp add: env_unshared_def sample_env_def)
  have auth: "authorize env_unshared
                ([] @ [FromServiceAccountFile (credentials_path fresh_service)]) = None"
    by (simp add: env_unshared_def sample_env_def)
  have opn: "open_by_key env_unshared
               ([] @ [FromServiceAccountFile (credentials_path fresh_service), Authorize])
               (sheet_id fresh_service) = Inl (Raise SpreadsheetNotFound ''sheet-1'')"
    by (simp add: env_unshared_def sample_env_def fresh_service_def)
  have disc: "spreadsheet fresh_service = None"
    by (simp add: fresh_service_def)
  from failed_open_is_never_retried [OF creds auth opn disc, where E' = sample_env
      and ?tr2.0 = "[]" and p = 10000 and r = "11 / 2" and t = 3 and cfg = sample_settings]
  obtain x where
    au: "authenticate env_unshared fresh_service [] =
            (Inl x, fresh_service\<lparr>client := Some Client\<rparr>,
             [] @ [FromServiceAccountFile (credentials_path fresh_service), Authorize,
                   OpenByKey (sheet_id fresh_service)])"
    and calc: "calculate_interest sample_env (fresh_service\<lparr>client := Some Client\<rparr>) []
                 10000 (11 / 2) 3 =
            (Inl (Raise Exception ''Not authenticated. Call authenticate() first.''),
             fresh_service\<lparr>client := Some Client\<rparr>, [])"
    and svc: "get_sheets_service sample_env sample_settings
                \<lparr>sheets_service = Some (fresh_service\<lparr>client := Some Client\<rparr>)\<rparr> [] =
            (Inr (fresh_service\<lparr>client := Some Client\<rparr>),
             \<lparr>sheets_service = Some (fresh_service\<lparr>client := Some Client\<rparr>)\<rparr>, [])"
    by blast
  have x: "fst (authenticate env_unshared fresh_service []) =
     Inl (Raise Exception
             (''Spreadsheet not found. Check if:'' @ [CHR 0x0A] @
              ''1. Sheet ID is correct: sheet-1'' @ [CHR 0x0A] @
              ''2. Sheet is shared with service account email''))"
    by (simp add: authenticate_def authenticate_try_def authenticate_except_def
          env_unshared_def sample_env_def fresh_service_def)
  from au x have "x = Raise Exception
             (''Spreadsheet not found. Check if:'' @ [CHR 0x0A] @
              ''1. Sheet ID is correct: sheet-1'' @ [CHR 0x0A] @
              ''2. Sheet is shared with service account email'')"
    by simp
  with au calc svc show ?thesis
    by (simp add: half_connected_service_def fresh_service_def)
qed

end
